theory Spec2Isabelle
  imports Main
begin

section \<open>Errors, configuration and artifact references\<close>

text \<open>
  Every exception the modelled code can raise is a value of \<open>error\<close>. The first three are
  the repository's own exception classes (\<open>tracdap.rt.exceptions\<close>); the others are the
  Python built-in or library exceptions raised by the operations the code calls.
\<close>

datatype error =
    EConfigParse string
  | EModelRepo string
  | EModelRepoConfig string
  | ValueError
  | IndexError
  | TypeError
  | TimeoutExpired
  | UnicodeDecodeError
  | BadZipFile
  | JSONDecodeError
  | ReError

text \<open>
  \<open>_cfg.PluginConfig\<close>: the protocol and the string-keyed plugin properties.
\<close>

record plugin_config =
  protocol :: string
  properties :: "string \<rightharpoonup> string"

text \<open>
  \<open>_meta.ModelDefinition\<close>, the fields this module reads.
\<close>

record model_def =
  repository :: string
  packageGroup :: string
  package :: string
  version :: string
  path :: string

text \<open>
  Modelled from the spec: \<open>_util.get_plugin_property\<close> lives in a module that is not part
  of the sources at hand. The specification describes a plugin configuration as "a mapping
  of string-keyed plugin properties", read by key; an absent key reads as \<open>None\<close>.
\<close>

definition get_plugin_property :: "plugin_config \<Rightarrow> string \<Rightarrow> string option" where
  "get_plugin_property plugin_config property_name = properties plugin_config property_name"

abbreviation REPO_TOKEN_KEY :: string where "REPO_TOKEN_KEY \<equiv> ''token''"
abbreviation REPO_USER_KEY :: string where "REPO_USER_KEY \<equiv> ''username''"
abbreviation REPO_PASS_KEY :: string where "REPO_PASS_KEY \<equiv> ''password''"

section \<open>Python strings\<close>

text \<open>
  \<open>str.index(c)\<close> for a one-character separator: the position of the first occurrence,
  \<open>ValueError\<close> when there is none.
\<close>

definition index_str :: "string \<Rightarrow> char \<Rightarrow> error + nat" where
  "index_str s c =
     (if c \<in> set s then Inr (length (takeWhile (\<lambda>x. x \<noteq> c) s)) else Inl ValueError)"

text \<open>
  \<open>str.partition(c)\<close> and \<open>str.rpartition(c)\<close> for a one-character separator. The middle
  component is the separator when it was found and the empty string otherwise; the model
  keeps only whether it was found.
\<close>

definition partition_str :: "string \<Rightarrow> char \<Rightarrow> string \<times> bool \<times> string" where
  "partition_str s c =
     (if c \<in> set s
      then (takeWhile (\<lambda>x. x \<noteq> c) s, True, tl (dropWhile (\<lambda>x. x \<noteq> c) s))
      else (s, False, []))"

definition rpartition_str :: "string \<Rightarrow> char \<Rightarrow> string \<times> bool \<times> string" where
  "rpartition_str s c =
     (if c \<in> set s
      then (rev (tl (dropWhile (\<lambda>x. x \<noteq> c) (rev s))), True, rev (takeWhile (\<lambda>x. x \<noteq> c) (rev s)))
      else ([], False, s))"

text \<open>Truthiness of an \<open>Optional[str]\<close>: neither \<open>None\<close> nor the empty string.\<close>

fun truthy_str :: "string option \<Rightarrow> bool" where
  "truthy_str None = False"
| "truthy_str (Some s) = (s \<noteq> [])"

section \<open>Parsed URLs\<close>

text \<open>
  \<open>urllib.parse.ParseResult\<close>: a named tuple of six strings. The field \<open>path\<close> of the
  tuple is called \<open>url_path\<close> here, since \<open>path\<close> is a field of the artifact reference.
\<close>

record parse_result =
  scheme :: string
  netloc :: string
  url_path :: string
  params :: string
  query :: string
  fragment :: string

text \<open>
  The properties \<open>username\<close>, \<open>hostname\<close> and \<open>port\<close> of a parse result are computed by
  the standard library from \<open>netloc\<close> alone: the user information is what stands before
  the last \<open>@\<close>, the host information what stands after it.
\<close>

definition userinfo :: "parse_result \<Rightarrow> string option \<times> string option" where
  "userinfo url =
     (case rpartition_str (netloc url) CHR ''@'' of
        (info, have_info, hostinfo) \<Rightarrow>
          if have_info
          then (case partition_str info CHR '':'' of
                  (user, have_password, password) \<Rightarrow>
                    (Some user, if have_password then Some password else None))
          else (None, None))"

definition username :: "parse_result \<Rightarrow> string option" where
  "username url = fst (userinfo url)"

definition hostinfo :: "parse_result \<Rightarrow> string \<times> string option" where
  "hostinfo url =
     (let hostinfo = snd (snd (rpartition_str (netloc url) CHR ''@''));
          (_, have_open_br, bracketed) = partition_str hostinfo CHR ''['';
          (hostname, port) =
            (if have_open_br
             then (let (hostname, _, port) = partition_str bracketed CHR '']'';
                       (_, _, port) = partition_str port CHR '':''
                   in (hostname, port))
             else (let (hostname, _, port) = partition_str hostinfo CHR '':''
                   in (hostname, port)))
      in (hostname, if port = [] then None else Some port))"

section \<open>Credentials in URLs\<close>

definition get_credentials :: "parse_result \<Rightarrow> plugin_config \<Rightarrow> error + string option" where
  "get_credentials url plugin_config =
     (let token = get_plugin_property plugin_config REPO_TOKEN_KEY;
          user = get_plugin_property plugin_config REPO_USER_KEY;
          password = get_plugin_property plugin_config REPO_PASS_KEY
      in if token \<noteq> None then Inr token
         else if user \<noteq> None \<and> password \<noteq> None
         then Inr (Some (the user @ '':'' @ the password))
         else if truthy_str (username url)
         then (case index_str (netloc url) CHR ''@'' of
                 Inl e \<Rightarrow> Inl e
               | Inr credentials_sep \<Rightarrow> Inr (Some (take credentials_sep (netloc url))))
         else Inr None)"

definition apply_credentials :: "parse_result \<Rightarrow> string option \<Rightarrow> error + parse_result" where
  "apply_credentials url credentials =
     (case credentials of
        None \<Rightarrow> Inr url
      | Some c \<Rightarrow>
          if username url = None
          then Inr (url\<lparr>netloc := c @ ''@'' @ netloc url\<rparr>)
          else (case index_str (netloc url) CHR ''@'' of
                  Inl e \<Rightarrow> Inl e
                | Inr location_sep \<Rightarrow>
                    Inr (url\<lparr>netloc := c @ ''@'' @ drop (location_sep + 1) (netloc url)\<rparr>)))"

text \<open>
  The credential rules in the specification's words, for comparison with the code. The
  credentials embedded in an authority are what stands before the \<open>@\<close> that ends the
  user information, which is the last one, as \<open>userinfo\<close> reads it; the host part is
  what stands behind it. Extraction: an explicit token; else user name and password
  joined by a colon; else the embedded credentials, when the URL has a (non-empty) user
  name; else nothing. Application: the supplied credentials take the place of the
  embedded ones, before the host part.
\<close>

definition embedded_credentials :: "string \<Rightarrow> string option" where
  "embedded_credentials authority =
     (case rpartition_str authority CHR ''@'' of
        (info, have_info, hostpart) \<Rightarrow> if have_info then Some info else None)"

definition host_part :: "string \<Rightarrow> string" where
  "host_part authority = snd (snd (rpartition_str authority CHR ''@''))"

definition extract_credentials_spec :: "parse_result \<Rightarrow> plugin_config \<Rightarrow> string option" where
  "extract_credentials_spec url config =
     (case properties config ''token'' of
        Some token \<Rightarrow> Some token
      | None \<Rightarrow>
          (case (properties config ''username'', properties config ''password'') of
             (Some user, Some password) \<Rightarrow> Some (user @ '':'' @ password)
           | _ \<Rightarrow>
               (case username url of
                  Some (c # cs) \<Rightarrow> embedded_credentials (netloc url)
                | _ \<Rightarrow> None)))"

definition apply_credentials_spec :: "parse_result \<Rightarrow> string option \<Rightarrow> parse_result" where
  "apply_credentials_spec url credentials =
     (case credentials of
        None \<Rightarrow> url
      | Some c \<Rightarrow> url\<lparr>netloc := c @ ''@'' @ host_part (netloc url)\<rparr>)"

text \<open>
  The authority without its text up to the first \<open>@\<close>, which is what the code keeps
  of it.
\<close>

definition strip_credentials :: "string \<Rightarrow> string" where
  "strip_credentials authority =
     (if CHR ''@'' \<in> set authority
      then tl (dropWhile (\<lambda>x. x \<noteq> CHR ''@'') authority)
      else authority)"

section \<open>The world outside the module\<close>

text \<open>
  What a child process did: it exited with a return code and left the bytes captured
  from its standard output and its standard error, or it did not finish within the
  timeout given to \<open>subprocess.run\<close>, which then raises \<open>TimeoutExpired\<close>.
\<close>

datatype proc_result = Exited int string string | TimedOut

text \<open>
  The \<open>yanked\<close> entry of a file record is a boolean or, in the JSON index, a string that
  gives the reason.
\<close>

datatype yanked_flag = YankedBool bool | YankedReason string

text \<open>
  A file record of a package listing: the keys this module reads or writes. An absent key,
  like a \<open>null\<close>, reads as \<open>None\<close> through \<open>dict.get\<close>.
\<close>

record file_info =
  filename :: "string option"
  url :: "string option"
  hashes :: "(string \<times> string) list"
  yanked :: "yanked_flag option"
  packagetype :: "string option"

text \<open>
  The JSON object of a package listing (\<open>name\<close>, \<open>files\<close>, \<open>meta\<close>) or of the package
  metadata endpoint (\<open>info\<close>, \<open>urls\<close>): the keys this module reads or writes.
\<close>

record package_obj =
  api_version :: "string option"
  name :: "string option"
  files :: "file_info list option"
  summary :: "string option"
  urls :: "file_info list option"

text \<open>
  \<open>requests.Response\<close>: \<open>json_body\<close> is what \<open>.json()\<close> returns, \<open>None\<close> when the body
  does not decode; \<open>content_type\<close> is \<open>headers.get("content-type")\<close>.
\<close>

record http_response =
  status_code :: nat
  reason :: string
  content_type :: "string option"
  json_body :: "package_obj option"
  body_text :: string
  content :: string
  resp_url :: string

text \<open>The callbacks \<open>html.parser.HTMLParser.feed\<close> makes while it reads markup.\<close>

datatype html_event =
    StartTag string "(string \<times> string option) list"
  | EndTag string
  | StartEndTag string "(string \<times> string option) list"
  | Data string

text \<open>
  The platform and the libraries the module calls, as parameters of the model:
  \<^item> \<open>_util.is_windows\<close>;
  \<^item> \<open>urllib.parse\<close> (\<open>urlparse\<close>, \<open>geturl\<close>, \<open>urljoin\<close>) and \<open>pathlib\<close> (\<open>joinpath\<close>);
  \<^item> \<open>subprocess.run\<close>: the result of the n-th run of an argument vector;
  \<^item> \<open>str(bytes, 'utf-8')\<close>: the decoded text, \<open>None\<close> when the bytes are not UTF-8 and
    the call raises \<open>UnicodeDecodeError\<close>;
  \<^item> \<open>requests.get\<close>; \<open>zipfile.ZipFile\<close> (the member names of an archive, \<open>None\<close> when
    the bytes are no archive); the tokenizer of \<open>html.parser\<close>;
  \<^item> \<open>re\<close>, for the patterns the model does not read itself: the function from a string
    to the text of the group \<open>target\<close> of a match at its start, \<open>None\<close> when
    \<open>re.compile\<close> raises \<open>re.error\<close>;
  \<^item> what the request of a package URL raises when \<open>urlparse\<close> was given \<open>None\<close>, from
    the credentials applied to it (see \<open>pypi_do_checkout\<close>).
\<close>

record platform =
  is_windows :: bool
  urlparse :: "string \<Rightarrow> parse_result"
  geturl :: "parse_result \<Rightarrow> string"
  urljoin :: "string \<Rightarrow> string \<Rightarrow> string"
  joinpath :: "string \<Rightarrow> string \<Rightarrow> string"
  run :: "string list \<Rightarrow> nat \<Rightarrow> proc_result"
  utf8_decode :: "string \<Rightarrow> string option"
  http_get :: "string \<Rightarrow> (string \<times> string) list \<Rightarrow> http_response"
  zip_entries :: "string \<Rightarrow> string list option"
  html_events :: "string \<Rightarrow> html_event list"
  re_library :: "string \<Rightarrow> (string \<Rightarrow> string option) option"
  get_bytes_url :: "string option \<Rightarrow> error"

text \<open>
  What a checkout does to the world, in order. Log output is not part of the model.
\<close>

datatype effect =
    Exec "string list"
  | RunShell string
  | Sleep nat
  | HttpGet string "(string \<times> string) list"
  | ExtractAll string "string list"

section \<open>Repository backends\<close>

text \<open>
  The four backend classes with the fields their constructors set. \<open>PyPiRepository\<close>
  holds \<open>_pip_index\<close>, \<open>_pip_index_url\<close> and \<open>_pip_simple_format\<close>.
\<close>

datatype model_repository =
    IntegratedSource plugin_config
  | LocalRepository plugin_config string
  | GitRepository plugin_config parse_result
  | PyPiRepository plugin_config "string option" "string option" "string option"

abbreviation REPO_URL_KEY :: string where "REPO_URL_KEY \<equiv> ''repoUrl''"
abbreviation PIP_INDEX_KEY :: string where "PIP_INDEX_KEY \<equiv> ''pipIndex''"
abbreviation PIP_INDEX_URL_KEY :: string where "PIP_INDEX_URL_KEY \<equiv> ''pipIndexUrl''"
abbreviation PIP_SIMPLE_FORMAT_KEY :: string where "PIP_SIMPLE_FORMAT_KEY \<equiv> ''pipSimpleFormat''"
abbreviation PIP_SIMPLE_FORMAT_JSON :: string where "PIP_SIMPLE_FORMAT_JSON \<equiv> ''json''"
abbreviation PIP_SIMPLE_FORMAT_HTML :: string where "PIP_SIMPLE_FORMAT_HTML \<equiv> ''html''"
abbreviation PIP_SIMPLE_TYPE_JSON :: string where
  "PIP_SIMPLE_TYPE_JSON \<equiv> ''application/vnd.pypi.simple.v1+json''"
abbreviation PIP_SIMPLE_TYPE_HTML :: string where "PIP_SIMPLE_TYPE_HTML \<equiv> ''text/html''"

subsection \<open>Constructors\<close>

definition IntegratedSource_init :: "plugin_config \<Rightarrow> error + model_repository" where
  "IntegratedSource_init repo_config = Inr (IntegratedSource repo_config)"

definition LocalRepository_init :: "plugin_config \<Rightarrow> error + model_repository" where
  "LocalRepository_init repo_config =
     (let repo_url = get_plugin_property repo_config REPO_URL_KEY
      in if \<not> truthy_str repo_url
         then Inl (EConfigParse ''Missing required property [repoUrl] in local repository config'')
         else Inr (LocalRepository repo_config (the repo_url)))"

definition GitRepository_init :: "platform \<Rightarrow> plugin_config \<Rightarrow> error + model_repository" where
  "GitRepository_init w repo_config =
     (let repo_url_prop = get_plugin_property repo_config REPO_URL_KEY
      in if \<not> truthy_str repo_url_prop
         then Inl (EConfigParse ''Missing required property [repoUrl] in Git repository config'')
         else (let repo_url = urlparse w (the repo_url_prop)
               in case get_credentials repo_url repo_config of
                    Inl e \<Rightarrow> Inl e
                  | Inr credentials \<Rightarrow>
                      (case apply_credentials repo_url credentials of
                         Inl e \<Rightarrow> Inl e
                       | Inr u \<Rightarrow> Inr (GitRepository repo_config u))))"

definition PyPiRepository_init :: "plugin_config \<Rightarrow> error + model_repository" where
  "PyPiRepository_init repo_config =
     (let pip_index = get_plugin_property repo_config PIP_INDEX_KEY;
          pip_index_url = get_plugin_property repo_config PIP_INDEX_URL_KEY;
          pip_simple_format = get_plugin_property repo_config PIP_SIMPLE_FORMAT_KEY
      in if pip_index = None \<and> pip_index_url = None
         then Inl (EConfigParse
                ''Neither [pipIndex] nor [pipIndexUrl is set in PyPi repository config'')
         else Inr (PyPiRepository repo_config pip_index pip_index_url pip_simple_format))"

subsection \<open>Checkout keys and package paths\<close>

fun checkout_key :: "model_repository \<Rightarrow> model_def \<Rightarrow> string" where
  "checkout_key (IntegratedSource _) model_def = ''trac_integrated''"
| "checkout_key (LocalRepository _ _) model_def = ''trac_local''"
| "checkout_key (GitRepository _ _) model_def = version model_def"
| "checkout_key (PyPiRepository _ _ _ _) model_def = version model_def"

fun package_path :: "platform \<Rightarrow> model_repository \<Rightarrow> model_def \<Rightarrow> string \<Rightarrow> string option" where
  "package_path w (IntegratedSource _) model_def checkout_dir = None"
| "package_path w (LocalRepository _ repo_url) model_def checkout_dir =
     Some (joinpath w repo_url (path model_def))"
| "package_path w (GitRepository _ _) model_def checkout_dir =
     Some (joinpath w checkout_dir (path model_def))"
| "package_path w (PyPiRepository _ _ _ _) model_def checkout_dir = Some checkout_dir"

section \<open>Git checkout\<close>

definition git_cli :: "platform \<Rightarrow> string \<Rightarrow> string list" where
  "git_cli w checkout_dir =
     [''git'', ''-C'', checkout_dir] @
     (if is_windows w then [''-c'', ''core.longpaths=true''] else [])"

definition git_cmds :: "platform \<Rightarrow> parse_result \<Rightarrow> model_def \<Rightarrow> string list list" where
  "git_cmds w repo_url model_def =
     [[''init''],
      [''remote'', ''add'', ''origin'', geturl w repo_url],
      [''fetch'', ''--depth=1'', ''origin'', version model_def],
      [''reset'', ''--hard'', ''FETCH_HEAD'']]"

text \<open>
  The loop over \<open>git_cmds\<close>. The first run of a command is its attempt 0; after a
  non-zero return code the code sleeps one second and runs the same command again
  (attempt 1). It then decodes the standard output and the standard error of the result
  it holds as UTF-8, which raises \<open>UnicodeDecodeError\<close> for other bytes, and only then
  looks at the return code: a non-zero one raises \<open>EModelRepo\<close>, zero goes on to the next
  command. The result is the exception raised, if any, and what was done.
\<close>

fun run_git_cmds ::
  "platform \<Rightarrow> model_def \<Rightarrow> string list \<Rightarrow> string list list \<Rightarrow> error option \<times> effect list" where
  "run_git_cmds w model_def cli [] = (None, [])"
| "run_git_cmds w model_def cli (git_cmd # rest) =
     (let cmd = cli @ git_cmd
      in case run w cmd 0 of
           TimedOut \<Rightarrow> (Some TimeoutExpired, [Exec cmd])
         | Exited returncode out err \<Rightarrow>
             (let (cmd_result, done) =
                    (if returncode \<noteq> 0
                     then (run w cmd 1, [Exec cmd, Sleep 1, Exec cmd])
                     else (Exited returncode out err, [Exec cmd]))
              in case cmd_result of
                   TimedOut \<Rightarrow> (Some TimeoutExpired, done)
                 | Exited returncode out err \<Rightarrow>
                     (case utf8_decode w out of
                        None \<Rightarrow> (Some UnicodeDecodeError, done)
                      | Some cmd_out \<Rightarrow>
                          (case utf8_decode w err of
                             None \<Rightarrow> (Some UnicodeDecodeError, done)
                           | Some cmd_err \<Rightarrow>
                               if returncode = 0
                               then (let (r, later) = run_git_cmds w model_def cli rest
                                     in (r, done @ later))
                               else (Some (EModelRepo (''Git checkout failed for ''
                                              @ package model_def @ '' ''
                                              @ version model_def)), done)))))"

definition git_do_checkout ::
  "platform \<Rightarrow> plugin_config \<Rightarrow> parse_result \<Rightarrow> model_def \<Rightarrow> string
     \<Rightarrow> (error + string option) \<times> effect list" where
  "git_do_checkout w repo_config repo_url model_def checkout_dir =
     (let takeown =
            (if is_windows w
             then [RunShell (''takeown /f '' @ [CHR 0x22] @ checkout_dir @ [CHR 0x22])]
             else []);
          (r, done) = run_git_cmds w model_def (git_cli w checkout_dir)
                        (git_cmds w repo_url model_def)
      in case r of
           Some e \<Rightarrow> (Inl e, takeown @ done)
         | None \<Rightarrow>
             (Inr (package_path w (GitRepository repo_config repo_url) model_def checkout_dir),
              takeown @ done))"

text \<open>
  The retry rule in the specification's words: a command is run once, and once more after
  a one-second pause when the first run exits non-zero. A step has succeeded when the
  last of these runs exits with zero and its output decodes; the retry has failed when
  both runs exit non-zero.
\<close>

definition attempts :: "platform \<Rightarrow> string list \<Rightarrow> effect list" where
  "attempts w cmd =
     (case run w cmd 0 of
        Exited rc out err \<Rightarrow> if rc = 0 then [Exec cmd] else [Exec cmd, Sleep 1, Exec cmd]
      | TimedOut \<Rightarrow> [Exec cmd])"


definition exits_nonzero :: "proc_result \<Rightarrow> bool" where
  "exits_nonzero r = (case r of Exited rc out err \<Rightarrow> rc \<noteq> 0 | TimedOut \<Rightarrow> False)"




section \<open>PyPI: selecting the package file\<close>

text \<open>\<open>str.replace\<close> of a character by a string, and \<open>sep.join\<close>.\<close>

definition replace_str :: "string \<Rightarrow> char \<Rightarrow> string \<Rightarrow> string" where
  "replace_str s c r = concat (map (\<lambda>x. if x = c then r else [x]) s)"

fun join_str :: "string \<Rightarrow> string list \<Rightarrow> string" where
  "join_str sep [] = []"
| "join_str sep [x] = x"
| "join_str sep (x # y # ys) = x @ sep @ join_str sep (y # ys)"

text \<open>
  The file pattern is
  \<open>re.compile(f"^{name_pattern}-{version_pattern}-(?P<target>.*)\\.whl")\<close>, used with
  \<open>match\<close>, which anchors at the start of the file name only. The interpolated text
  is read as a regular expression. The model reads it itself when it is a sequence of
  atoms (an ordinary character, \<open>.\<close> for any character but a newline, or the escaped
  dot), each followed by at most one of the greedy quantifiers \<open>?\<close>, \<open>*\<close> and \<open>+\<close>;
  \<open>parse_rx\<close> gives \<open>None\<close> for any other text, and the pattern then goes to the
  library (\<open>re_library\<close>).
\<close>

datatype rx = RChar char | RAny

datatype quant = QOne | QOpt | QStar | QPlus

fun rx_accepts :: "rx \<Rightarrow> char \<Rightarrow> bool" where
  "rx_accepts (RChar c) x = (x = c)"
| "rx_accepts RAny x = (x \<noteq> CHR 0x0A)"

text \<open>
  The quantifier that follows an atom and the number of characters it takes (none or
  one); \<open>None\<close> when a second quantifier character follows (a lazy or possessive
  quantifier, or a repeated one).
\<close>

fun take_quant :: "string \<Rightarrow> (quant \<times> nat) option" where
  "take_quant [] = Some (QOne, 0)"
| "take_quant (q # cs) =
     (if q \<in> set ''?*+''
      then (if cs \<noteq> [] \<and> hd cs \<in> set ''?*+'' then None
            else Some (if q = CHR ''?'' then QOpt else if q = CHR ''*'' then QStar else QPlus, 1))
      else Some (QOne, 0))"

function parse_rx :: "string \<Rightarrow> (rx \<times> quant) list option" where
  "parse_rx [] = Some []"
| "parse_rx (c # cs) =
     (case (if c = CHR 0x5C
            then (case cs of [] \<Rightarrow> None
                  | d # ds \<Rightarrow> if d = CHR ''.'' then Some (RChar d, ds) else None)
            else if c = CHR ''.'' then Some (RAny, cs)
            else if c \<in> set ''^$*+?{}[]|()'' then None
            else Some (RChar c, cs)) of
        None \<Rightarrow> None
      | Some (atom, after) \<Rightarrow>
          (case take_quant after of
             None \<Rightarrow> None
           | Some (q, n) \<Rightarrow> map_option (Cons (atom, q)) (parse_rx (drop n after))))"
  by pat_completeness auto
termination
  by (relation "measure length") (auto split: if_splits list.splits)

text \<open>
  Matching the interpolated text at the start of a string, with backtracking: the texts
  that can be left behind it, in the order in which the matcher tries them. A greedy
  quantifier first takes one more character and only then stops.
\<close>

fun rests :: "(rx \<times> quant) list \<Rightarrow> string \<Rightarrow> string list" where
  "rests [] s = [s]"
| "rests ((a, QOne) # items) s =
     (case s of [] \<Rightarrow> [] | x # xs \<Rightarrow> if rx_accepts a x then rests items xs else [])"
| "rests ((a, QOpt) # items) s =
     (case s of [] \<Rightarrow> [] | x # xs \<Rightarrow> if rx_accepts a x then rests items xs else [])
     @ rests items s"
| "rests ((a, QStar) # items) s =
     (case s of [] \<Rightarrow> []
      | x # xs \<Rightarrow> if rx_accepts a x then rests ((a, QStar) # items) xs else [])
     @ rests items s"
| "rests ((a, QPlus) # items) s =
     (case s of [] \<Rightarrow> []
      | x # xs \<Rightarrow> if rx_accepts a x then rests ((a, QStar) # items) xs else [])"

text \<open>
  The group \<open>(?P<target>.*)\<close> followed by \<open>\.whl\<close>: the star is greedy, so it first takes
  one more character (never a newline) and gives it back only when the rest of the
  pattern does not match behind it. The result is the text of the group.
\<close>

fun match_target :: "string \<Rightarrow> string option" where
  "match_target [] = None"
| "match_target (c # cs) =
     (case (if c \<noteq> CHR 0x0A then match_target cs else None) of
        Some t \<Rightarrow> Some (c # t)
      | None \<Rightarrow> if take 4 (c # cs) = ''.whl'' then Some [] else None)"

fun first_target :: "string list \<Rightarrow> string option" where
  "first_target [] = None"
| "first_target (r # rs) =
     (case match_target r of Some t \<Rightarrow> Some t | None \<Rightarrow> first_target rs)"

definition re_match :: "(rx \<times> quant) list \<Rightarrow> string \<Rightarrow> string option" where
  "re_match items s = first_target (rests items s)"

text \<open>
  \<open>re.compile\<close> of the file pattern with the given interpolated text: the function that
  \<open>file_pattern.match\<close> and \<open>match.group("target")\<close> compute, \<open>None\<close> when compiling
  raises \<open>re.error\<close>.
\<close>

definition re_compile :: "platform \<Rightarrow> string \<Rightarrow> (string \<Rightarrow> string option) option" where
  "re_compile w interpolated =
     (case parse_rx interpolated of
        Some items \<Rightarrow> Some (re_match items)
      | None \<Rightarrow> re_library w (''^'' @ interpolated @ ''(?P<target>.*)'' @ [CHR 0x5C] @ ''.whl''))"

text \<open>Truthiness of a \<open>yanked\<close> entry.\<close>

fun truthy_yanked :: "yanked_flag option \<Rightarrow> bool" where
  "truthy_yanked None = False"
| "truthy_yanked (Some (YankedBool b)) = b"
| "truthy_yanked (Some (YankedReason s)) = (s \<noteq> [])"

text \<open>The loop over the files: the list \<open>matches\<close> of (filename, url, target).\<close>

fun collect_matches ::
  "(string \<Rightarrow> string option) \<Rightarrow> file_info list \<Rightarrow> (string \<times> string option \<times> string) list" where
  "collect_matches file_pattern [] = []"
| "collect_matches file_pattern (fi # rest) =
     (let fname = (case filename fi of Some s \<Rightarrow> s | None \<Rightarrow> []);
          is_yanked = truthy_yanked (yanked fi)
      in (case file_pattern fname of
            Some target \<Rightarrow> if \<not> is_yanked then [(fname, url fi, target)] else []
          | None \<Rightarrow> [])
         @ collect_matches file_pattern rest)"

definition pypi_simple_parse_response ::
  "platform \<Rightarrow> model_def \<Rightarrow> package_obj \<Rightarrow> error + (string option \<times> string option)" where
  "pypi_simple_parse_response w model_def obj =
     (let package_name = (if truthy_str (name obj) then the (name obj) else package model_def);
          fs = (case files obj of Some l \<Rightarrow> l | None \<Rightarrow> []);
          name_pattern = replace_str package_name CHR ''-'' ''_'';
          version_pattern = replace_str (version model_def) CHR ''.'' [CHR 0x5C, CHR ''.'']
      in case re_compile w (name_pattern @ ''-'' @ version_pattern @ ''-'') of
           None \<Rightarrow> Inl ReError
         | Some file_pattern \<Rightarrow>
             (let matches = collect_matches file_pattern fs
              in if length matches = 0
                 then Inl (EModelRepo (''No package found for ['' @ package_name @ ''] version [''
                             @ version model_def @ '']''))
                 else if length matches > 1
                 then Inl (EModelRepo (''Multiple packages found for ['' @ package_name
                             @ ''] version ['' @ version model_def @ '']'' @ '' (targets: ''
                             @ join_str '', '' (map (\<lambda>m. snd (snd m)) matches) @ '')''))
                 else (case hd matches of (fname, u, target) \<Rightarrow> Inr (Some fname, u))))"

section \<open>The parser of the HTML simple index\<close>

record html_parser =
  package_url :: string
  stack :: "(string \<times> (string \<times> string option) list) list"
  data :: "string option"
  response :: package_obj

definition PypiSimpleHtmlParser_init :: "string \<Rightarrow> string \<Rightarrow> html_parser" where
  "PypiSimpleHtmlParser_init package_name page_url =
     \<lparr>package_url = page_url, stack = [], data = None,
      response = \<lparr>api_version = None, name = Some package_name, files = Some [],
                  summary = None, urls = None\<rparr>\<rparr>"

text \<open>\<open>str.split(c)\<close> for a one-character separator.\<close>

fun split_str :: "string \<Rightarrow> char \<Rightarrow> string list" where
  "split_str [] c = [[]]"
| "split_str (x # xs) c =
     (if x = c then [] # split_str xs c
      else (case split_str xs c of [] \<Rightarrow> [[x]] | p # ps \<Rightarrow> (x # p) # ps))"

text \<open>
  \<open>str.strip()\<close>: the characters with code below 256 that \<open>str.isspace\<close> accepts are
  9 to 13, 28 to 32, 133 and 160.
\<close>

definition py_isspace :: "char \<Rightarrow> bool" where
  "py_isspace c =
     (let n = (of_char c :: nat)
      in (9 \<le> n \<and> n \<le> 13) \<or> (28 \<le> n \<and> n \<le> 32) \<or> n = 133 \<or> n = 160)"

definition strip :: "string \<Rightarrow> string" where
  "strip s = rev (dropWhile py_isspace (rev (dropWhile py_isspace s)))"

definition record_meta :: "(string \<times> string option) list \<Rightarrow> html_parser \<Rightarrow> html_parser" where
  "record_meta attrs p =
     (let content_attr = filter (\<lambda>a. fst a = ''content'') attrs
      in if length content_attr = 1
         then p\<lparr>response := (response p)\<lparr>api_version := snd (hd content_attr)\<rparr>\<rparr>
         else p)"

text \<open>
  \<open>_record_link\<close>. The stack of open tags is a Python list: \<open>append\<close> adds at the end and
  \<open>pop\<close> takes from the end. \<open>"#" in href_url\<close> raises \<open>TypeError\<close> for an attribute
  without a value. \<open>required_python\<close> is computed as in the source.
\<close>

definition record_link ::
  "platform \<Rightarrow> string \<Rightarrow> (string \<times> string option) list \<Rightarrow> html_parser \<Rightarrow> error + html_parser" where
  "record_link w fname attrs p =
     (let href_attr = filter (\<lambda>a. fst a = ''href'') attrs;
          yanked_attr = filter (\<lambda>a. fst a = ''data-yanked'') attrs;
          python_version_attr = filter (\<lambda>a. fst a = ''data-requires-python'') attrs
      in if length href_attr \<noteq> 1 then Inr p
         else (let href_url = snd (hd href_attr);
                   is_yanked = (yanked_attr \<noteq> []);
                   required_python =
                     (if length python_version_attr = 1 then snd (hd python_version_attr) else None)
               in case href_url of
                    None \<Rightarrow> Inl TypeError
                  | Some href \<Rightarrow>
                      (let (hash_info, href') =
                             (if CHR ''#'' \<in> set href
                              then (let sep = length (takeWhile (\<lambda>x. x \<noteq> CHR ''#'') href)
                                    in (Some (split_str (drop (sep + 1) href) CHR ''=''), take sep href))
                              else (None, href));
                           file_url = urljoin w (package_url p) href';
                           hs = (case hash_info of Some [a, b] \<Rightarrow> [(a, b)] | _ \<Rightarrow> []);
                           fi = \<lparr>filename = Some fname, url = Some file_url, hashes = hs,
                                 yanked = Some (YankedBool is_yanked), packagetype = None\<rparr>
                       in Inr (p\<lparr>response := (response p)
                                 \<lparr>files := map_option (\<lambda>l. l @ [fi]) (files (response p))\<rparr>\<rparr>))))"

definition handle_starttag ::
  "string \<Rightarrow> (string \<times> string option) list \<Rightarrow> html_parser \<Rightarrow> html_parser" where
  "handle_starttag tag attrs p =
     (let p1 = p\<lparr>stack := stack p @ [(tag, attrs)], data := None\<rparr>
      in if tag = ''meta'' \<and>
            list_ex (\<lambda>a. fst a = ''name'' \<and> snd a = Some ''pypi:repository-version'') attrs
         then record_meta attrs p1
         else p1)"

text \<open>
  The loop \<open>while stack_tag != tag and len(self._stack) > 0\<close> of \<open>handle_endtag\<close>: the
  stack that is left.
\<close>

function pop_until ::
  "string \<Rightarrow> string \<Rightarrow> (string \<times> (string \<times> string option) list) list
     \<Rightarrow> (string \<times> (string \<times> string option) list) list" where
  "pop_until tag stack_tag stk =
     (if stack_tag \<noteq> tag \<and> length stk > 0
      then pop_until tag (fst (last stk)) (butlast stk)
      else stk)"
  by pat_completeness auto
termination
  by (relation "measure (\<lambda>(tag, stack_tag, stk). length stk)") auto

definition handle_endtag :: "platform \<Rightarrow> string \<Rightarrow> html_parser \<Rightarrow> error + html_parser" where
  "handle_endtag w tag p =
     (if stack p = [] then Inl IndexError
      else (let (stack_tag, stack_attrs) = last (stack p);
                p1 = p\<lparr>stack := butlast (stack p)\<rparr>
            in case (if tag = ''a'' \<and> stack_tag = ''a'' \<and> data p1 \<noteq> None
                     then record_link w (the (data p1)) stack_attrs p1
                     else Inr p1) of
                 Inl e \<Rightarrow> Inl e
               | Inr p2 \<Rightarrow> Inr (p2\<lparr>stack := pop_until tag stack_tag (stack p2)\<rparr>)))"

definition handle_data :: "string \<Rightarrow> html_parser \<Rightarrow> html_parser" where
  "handle_data d p =
     (let stripped_data = strip d
      in p\<lparr>data := (if length stripped_data > 0 then Some stripped_data else None)\<rparr>)"

text \<open>
  \<open>feed\<close>: the callbacks in the order the tokenizer makes them; an empty element calls
  \<open>handle_starttag\<close> and then \<open>handle_endtag\<close>.
\<close>

fun feed :: "platform \<Rightarrow> html_event list \<Rightarrow> html_parser \<Rightarrow> error + html_parser" where
  "feed w [] p = Inr p"
| "feed w (StartTag tag attrs # es) p = feed w es (handle_starttag tag attrs p)"
| "feed w (EndTag tag # es) p =
     (case handle_endtag w tag p of Inl e \<Rightarrow> Inl e | Inr p' \<Rightarrow> feed w es p')"
| "feed w (StartEndTag tag attrs # es) p =
     (case handle_endtag w tag (handle_starttag tag attrs p) of
        Inl e \<Rightarrow> Inl e
      | Inr p' \<Rightarrow> feed w es p')"
| "feed w (Data d # es) p = feed w es (handle_data d p)"

section \<open>PyPI checkout\<close>

text \<open>\<open>str\<close> of a non-negative integer, and of an optional string in an f-string.\<close>

function str_nat :: "nat \<Rightarrow> string" where
  "str_nat n =
     (if n < 10 then [''0123456789'' ! n]
      else str_nat (n div 10) @ [''0123456789'' ! (n mod 10)])"
  by pat_completeness auto
termination
  by (relation "measure id") auto

fun str_opt :: "string option \<Rightarrow> string" where
  "str_opt None = ''None''"
| "str_opt (Some s) = s"

text \<open>
  The path templates \<open>"{}/{}/"\<close> and \<open>"{}/{}/{}/json"\<close>, formatted with the path of the
  index, the package and the version; \<open>str.format\<close> ignores the argument a template has
  no place for.
\<close>

definition SIMPLE_PACKAGE_PATH :: "string \<Rightarrow> string \<Rightarrow> string \<Rightarrow> string" where
  "SIMPLE_PACKAGE_PATH a b c = a @ ''/'' @ b @ ''/''"

definition JSON_PACKAGE_PATH :: "string \<Rightarrow> string \<Rightarrow> string \<Rightarrow> string" where
  "JSON_PACKAGE_PATH a b c = a @ ''/'' @ b @ ''/'' @ c @ ''/json''"

definition PIP_SIMPLE_CONTENT_TYPES :: "string \<rightharpoonup> string" where
  "PIP_SIMPLE_CONTENT_TYPES =
     [PIP_SIMPLE_FORMAT_JSON \<mapsto> ''application/vnd.pypi.simple.v1+json'',
      PIP_SIMPLE_FORMAT_HTML \<mapsto> ''text/html'']"

definition pypi_simple_content_type :: "string option \<Rightarrow> string" where
  "pypi_simple_content_type pip_simple_format =
     (case pip_simple_format of
        None \<Rightarrow> the (PIP_SIMPLE_CONTENT_TYPES PIP_SIMPLE_FORMAT_JSON)
      | Some f \<Rightarrow>
          (case PIP_SIMPLE_CONTENT_TYPES f of
             Some t \<Rightarrow> t
           | None \<Rightarrow> the (PIP_SIMPLE_CONTENT_TYPES PIP_SIMPLE_FORMAT_JSON)))"

definition pypi_package_query ::
  "platform \<Rightarrow> (string \<Rightarrow> string \<Rightarrow> string \<Rightarrow> string) \<Rightarrow> parse_result \<Rightarrow> (string \<times> string) list
     \<Rightarrow> string option \<Rightarrow> model_def \<Rightarrow> (error + http_response) \<times> effect list" where
  "pypi_package_query w package_path_template root_url headers credentials model_def =
     (case apply_credentials root_url credentials of
        Inl e \<Rightarrow> (Inl e, [])
      | Inr root \<Rightarrow>
          (let pkg_path = package_path_template (url_path root) (package model_def)
                            (version model_def);
               pkg_url = root\<lparr>url_path := pkg_path\<rparr>;
               package_req = http_get w (geturl w pkg_url) headers;
               done = [HttpGet (geturl w pkg_url) headers]
           in if status_code package_req \<noteq> 200
              then (Inl (EModelRepo (''Package lookup failed: ['' @ str_nat (status_code package_req)
                           @ ''] '' @ reason package_req)), done)
              else (Inr package_req, done)))"

text \<open>
  The URL a query returns for the package file. For a selected record without a URL
  \<open>urlparse(None)\<close> gives the empty result of bytes; \<open>_apply_credentials\<close> leaves it as it
  is without credentials and otherwise writes the credentials, as text, into its
  authority. \<open>BytesUrl\<close> is that value, with the credentials applied to it.
\<close>

datatype request_url = StrUrl parse_result | BytesUrl "string option"

text \<open>
  \<open>_pypi_simple_query\<close>. A body that does not decode as JSON is caught and raised again
  as a repository error.
\<close>

definition pypi_simple_query ::
  "platform \<Rightarrow> plugin_config \<Rightarrow> string \<Rightarrow> string option \<Rightarrow> model_def
     \<Rightarrow> (error + (string option \<times> request_url)) \<times> effect list" where
  "pypi_simple_query w repo_config pip_index_url pip_simple_format model_def =
     (let simple_root_url = urlparse w pip_index_url;
          simple_headers = [(''accept'', pypi_simple_content_type pip_simple_format)]
      in case get_credentials simple_root_url repo_config of
           Inl e \<Rightarrow> (Inl e, [])
         | Inr credentials \<Rightarrow>
             (case pypi_package_query w SIMPLE_PACKAGE_PATH simple_root_url simple_headers
                     credentials model_def of
                (Inl e, done) \<Rightarrow> (Inl e, done)
              | (Inr package_req, done) \<Rightarrow>
                  (let received_content_type = content_type package_req;
                       parsed =
                         (if received_content_type = Some PIP_SIMPLE_TYPE_JSON
                          then (case json_body package_req of
                                  None \<Rightarrow> Inl (EModelRepo ''Invalid response from model repository'')
                                | Some obj \<Rightarrow> pypi_simple_parse_response w model_def obj)
                          else if received_content_type = Some PIP_SIMPLE_TYPE_HTML
                          then (case feed w (html_events w (body_text package_req))
                                       (PypiSimpleHtmlParser_init (package model_def)
                                          (resp_url package_req)) of
                                  Inl e \<Rightarrow> Inl e
                                | Inr package_parser \<Rightarrow>
                                    pypi_simple_parse_response w model_def (response package_parser))
                          else Inl (EModelRepo
                                 (''Invalid response from package repository: Content type = [''
                                    @ str_opt received_content_type @ '']'')))
                   in case parsed of
                        Inl e \<Rightarrow> (Inl e, done)
                      | Inr (fname, None) \<Rightarrow> (Inr (fname, BytesUrl credentials), done)
                      | Inr (fname, Some u) \<Rightarrow>
                          (case apply_credentials (urlparse w u) credentials of
                             Inl e \<Rightarrow> (Inl e, done)
                           | Inr pkg_url \<Rightarrow> (Inr (fname, StrUrl pkg_url), done)))))"

definition pypi_json_query ::
  "platform \<Rightarrow> plugin_config \<Rightarrow> string \<Rightarrow> model_def
     \<Rightarrow> (error + (string option \<times> request_url)) \<times> effect list" where
  "pypi_json_query w repo_config pip_index model_def =
     (let json_root_url = urlparse w pip_index;
          json_headers = [(''accept'', ''application/json'')]
      in case get_credentials json_root_url repo_config of
           Inl e \<Rightarrow> (Inl e, [])
         | Inr credentials \<Rightarrow>
             (case pypi_package_query w JSON_PACKAGE_PATH json_root_url json_headers
                     credentials model_def of
                (Inl e, done) \<Rightarrow> (Inl e, done)
              | (Inr package_req, done) \<Rightarrow>
                  (case json_body package_req of
                     None \<Rightarrow> (Inl JSONDecodeError, done)
                   | Some obj \<Rightarrow>
                       (let us = (case urls obj of Some l \<Rightarrow> l | None \<Rightarrow> []);
                            bdist_urls = filter (\<lambda>d. packagetype d = Some ''bdist_wheel'') us
                        in if bdist_urls = []
                           then (Inl (EModelRepo ''No compatible packages found''), done)
                           else if length bdist_urls > 1
                           then (Inl (EModelRepo
                                   (''Multiple compatible packages found''
                                      @ '' (specialized distributions are not supported yet)'')), done)
                           else (let package_url_info = hd bdist_urls
                                 in case url package_url_info of
                                      None \<Rightarrow>
                                        (Inr (filename package_url_info, BytesUrl credentials),
                                         done)
                                    | Some u \<Rightarrow>
                                        (case apply_credentials (urlparse w u) credentials of
                                           Inl e \<Rightarrow> (Inl e, done)
                                         | Inr pkg_url \<Rightarrow>
                                             (Inr (filename package_url_info, StrUrl pkg_url),
                                              done)))))))"

text \<open>
  \<open>PyPiRepository.do_checkout\<close>, in two parts: \<open>pypi_index_query\<close> is its choice between
  the two index protocols, \<open>pypi_do_checkout\<close> the whole method. The constructor leaves at
  least one of the two index properties set, so \<open>_pip_index\<close> is a string where the second
  branch reads it; the model raises \<open>TypeError\<close> for a backend value the constructor
  cannot build. A package URL of bytes makes the request raise, in \<open>geturl\<close> (which
  refuses to mix text and bytes) or in \<open>requests.get\<close> (which refuses the empty URL);
  which exception it is comes from the platform.
\<close>

definition pypi_index_query ::
  "platform \<Rightarrow> plugin_config \<Rightarrow> string option \<Rightarrow> string option \<Rightarrow> string option \<Rightarrow> model_def
     \<Rightarrow> (error + (string option \<times> request_url)) \<times> effect list" where
  "pypi_index_query w repo_config pip_index pip_index_url pip_simple_format model_def =
     (if pip_index_url \<noteq> None
      then pypi_simple_query w repo_config (the pip_index_url) pip_simple_format model_def
      else (case pip_index of
              None \<Rightarrow> (Inl TypeError, [])
            | Some i \<Rightarrow> pypi_json_query w repo_config i model_def))"

definition pypi_do_checkout ::
  "platform \<Rightarrow> plugin_config \<Rightarrow> string option \<Rightarrow> string option \<Rightarrow> string option \<Rightarrow> model_def
     \<Rightarrow> string \<Rightarrow> (error + string option) \<times> effect list" where
  "pypi_do_checkout w repo_config pip_index pip_index_url pip_simple_format model_def checkout_dir =
     (case pypi_index_query w repo_config pip_index pip_index_url pip_simple_format model_def of
        (Inl e, done) \<Rightarrow> (Inl e, done)
      | (Inr (package_filename, BytesUrl credentials), done) \<Rightarrow>
          (Inl (get_bytes_url w credentials), done)
      | (Inr (package_filename, StrUrl pkg_url), done) \<Rightarrow>
          (let download_req = http_get w (geturl w pkg_url) [];
               done' = done @ [HttpGet (geturl w pkg_url) []]
           in case zip_entries w (content download_req) of
                None \<Rightarrow> (Inl BadZipFile, done')
              | Some members \<Rightarrow>
                  (Inr (package_path w
                          (PyPiRepository repo_config pip_index pip_index_url pip_simple_format)
                          model_def checkout_dir),
                   done' @ [ExtractAll checkout_dir members])))"

section \<open>Checkout, for any backend\<close>

fun do_checkout ::
  "platform \<Rightarrow> model_repository \<Rightarrow> model_def \<Rightarrow> string \<Rightarrow> (error + string option) \<times> effect list" where
  "do_checkout w (IntegratedSource c) model_def checkout_dir =
     (Inr (package_path w (IntegratedSource c) model_def checkout_dir), [])"
| "do_checkout w (LocalRepository c repo_url) model_def checkout_dir =
     (Inr (package_path w (LocalRepository c repo_url) model_def checkout_dir), [])"
| "do_checkout w (GitRepository c repo_url) model_def checkout_dir =
     git_do_checkout w c repo_url model_def checkout_dir"
| "do_checkout w (PyPiRepository c pip_index pip_index_url pip_simple_format) model_def checkout_dir =
     pypi_do_checkout w c pip_index pip_index_url pip_simple_format model_def checkout_dir"

section \<open>The repository manager\<close>

text \<open>
  The registry of backend types maps a protocol to a constructor. A backend object lives
  in the store of objects (a list, an object's reference being its position), so that two
  references are the same object exactly when they are equal.
\<close>

type_synonym repo_types = "string \<rightharpoonup> (plugin_config \<Rightarrow> error + model_repository)"

definition builtin_repo_types :: "platform \<Rightarrow> repo_types" where
  "builtin_repo_types w =
     [''integrated'' \<mapsto> IntegratedSource_init,
      ''local'' \<mapsto> LocalRepository_init,
      ''git'' \<mapsto> GitRepository_init w,
      ''pypi'' \<mapsto> PyPiRepository_init]"

definition register_repo_type ::
  "repo_types \<Rightarrow> string \<Rightarrow> (plugin_config \<Rightarrow> error + model_repository) \<Rightarrow> repo_types" where
  "register_repo_type types repo_type loader_class = types(repo_type \<mapsto> loader_class)"

record repository_manager =
  loaders :: "string \<rightharpoonup> nat"

text \<open>
  The loop of \<open>RepositoryManager.__init__\<close> over \<open>sys_config.repositories.items()\<close>, the
  entries of a dictionary in their order.
\<close>

fun init_loaders ::
  "repo_types \<Rightarrow> (string \<times> plugin_config) list \<Rightarrow> (string \<rightharpoonup> nat) \<Rightarrow> model_repository list
     \<Rightarrow> (error + (string \<rightharpoonup> nat)) \<times> model_repository list" where
  "init_loaders types [] ls store = (Inr ls, store)"
| "init_loaders types ((repo_name, repo_config) # rest) ls store =
     (case types (protocol repo_config) of
        None \<Rightarrow>
          (Inl (EModelRepoConfig (''Model repository type ['' @ protocol repo_config
                  @ ''] is not recognised''
                  @ '' (this could indicate a missing model repository plugin)'')), store)
      | Some loader_class \<Rightarrow>
          (case loader_class repo_config of
             Inl e \<Rightarrow> (Inl e, store)
           | Inr loader \<Rightarrow>
               init_loaders types rest (ls(repo_name \<mapsto> length store)) (store @ [loader])))"

definition RepositoryManager_init ::
  "repo_types \<Rightarrow> (string \<times> plugin_config) list \<Rightarrow> model_repository list
     \<Rightarrow> (error + repository_manager) \<times> model_repository list" where
  "RepositoryManager_init types repositories store =
     (case init_loaders types repositories Map.empty store of
        (Inl e, store') \<Rightarrow> (Inl e, store')
      | (Inr ls, store') \<Rightarrow> (Inr \<lparr>loaders = ls\<rparr>, store'))"

definition get_repository :: "repository_manager \<Rightarrow> string \<Rightarrow> error + nat" where
  "get_repository self repo_name =
     (case loaders self repo_name of
        None \<Rightarrow>
          Inl (EModelRepoConfig (''Model repository ['' @ repo_name
                 @ ''] is unknown or not configured''
                 @ '' (this could indicate a missing repository entry in the system config)''))
      | Some loader \<Rightarrow> Inr loader)"

section \<open>Names for the statements about the Git checkout\<close>



section \<open>Names for the statements about the package selection\<close>

text \<open>
  The file name of a record as the selection reads it
  (\<open>file_info.get("filename") or ""\<close>), and the form of a wheel's file name in the
  specification's words: \<open>{name}-{version}-{target}.whl\<close> for some target.
\<close>

definition file_name :: "file_info \<Rightarrow> string" where
  "file_name fi = (case filename fi of Some s \<Rightarrow> s | None \<Rightarrow> [])"

definition is_wheel_name :: "string \<Rightarrow> string \<Rightarrow> string \<Rightarrow> bool" where
  "is_wheel_name name_pattern ver s =
     (\<exists>target. s = name_pattern @ ''-'' @ ver @ ''-'' @ target @ ''.whl'')"

section \<open>Example values\<close>



definition both_config :: plugin_config where
  "both_config = \<lparr>protocol = ''pypi'',
     properties = [''pipIndex'' \<mapsto> ''https://pypi.example/pypi'',
                   ''pipIndexUrl'' \<mapsto> ''https://pypi.example/simple'']\<rparr>"

definition simple_config :: plugin_config where
  "simple_config = \<lparr>protocol = ''pypi'',
     properties = [''pipIndexUrl'' \<mapsto> ''https://pypi.example/simple'']\<rparr>"

definition empty_config :: plugin_config where
  "empty_config = \<lparr>protocol = ''pypi'', properties = Map.empty\<rparr>"


definition example_model :: model_def where
  "example_model = \<lparr>repository = ''models'', packageGroup = [], package = ''mypkg'',
     version = ''1.0.0'', path = ''src''\<rparr>"

text \<open>
  A URL whose authority holds an \<open>@\<close> inside the password, and a configuration without
  credentials.
\<close>

definition at_url :: parse_result where
  "at_url = \<lparr>scheme = ''https'', netloc = ''user:p@ss@git.example.org'', url_path = ''/models.git'',
     params = [], query = [], fragment = []\<rparr>"

definition plain_config :: plugin_config where
  "plain_config = \<lparr>protocol = ''git'',
     properties = [''repoUrl'' \<mapsto> ''https://user:p@ss@git.example.org/models.git'']\<rparr>"

text \<open>A decoder that is right on ASCII bytes and refuses every other byte.\<close>

definition ascii_decode :: "string \<Rightarrow> string option" where
  "ascii_decode b = (if list_all (\<lambda>c. (of_char c :: nat) < 128) b then Some b else None)"

definition example_platform :: platform where
  "example_platform =
     \<lparr>is_windows = False,
      urlparse = (\<lambda>s. \<lparr>scheme = takeWhile (\<lambda>c. c \<noteq> CHR '':'') s,
                        netloc = takeWhile (\<lambda>c. c \<noteq> CHR ''/'') (drop 3 (dropWhile (\<lambda>c. c \<noteq> CHR '':'') s)),
                        url_path = dropWhile (\<lambda>c. c \<noteq> CHR ''/'') (drop 3 (dropWhile (\<lambda>c. c \<noteq> CHR '':'') s)),
                        params = [], query = [], fragment = []\<rparr>),
      geturl = (\<lambda>u. scheme u @ ''://'' @ netloc u @ url_path u),
      urljoin = (\<lambda>base ref. base @ ref),
      joinpath = (\<lambda>d p. d @ ''/'' @ p),
      run = (\<lambda>cmd n. Exited 0 [] []),
      utf8_decode = ascii_decode,
      http_get = (\<lambda>u h. \<lparr>status_code = 404, reason = ''Not Found'', content_type = None,
                          json_body = None, body_text = [], content = [], resp_url = u\<rparr>),
      zip_entries = (\<lambda>c. None),
      html_events = (\<lambda>s. []),
      re_library = (\<lambda>p. None),
      get_bytes_url = (\<lambda>c. TypeError)\<rparr>"


text \<open>
  A PyPI index that answers the metadata query for the example artifact with one wheel,
  and every other request with status 404 and the given body.
\<close>

definition index_config :: plugin_config where
  "index_config = \<lparr>protocol = ''pypi'',
     properties = [''pipIndex'' \<mapsto> ''https://pypi.example/pypi'']\<rparr>"

definition download_platform :: "string \<Rightarrow> platform" where
  "download_platform body = example_platform
     \<lparr>http_get := (\<lambda>u h.
        if u = ''https://pypi.example/pypi/mypkg/1.0.0/json''
        then \<lparr>status_code = 200, reason = ''OK'', content_type = Some ''application/json'',
               json_body = Some \<lparr>api_version = None, name = None, files = None,
                 summary = Some ''An example'',
                 urls = Some [\<lparr>filename = Some ''mypkg-1.0.0-py3-none-any.whl'',
                                url = Some ''https://files.example/mypkg-1.0.0-py3-none-any.whl'',
                                hashes = [], yanked = None,
                                packagetype = Some ''bdist_wheel''\<rparr>]\<rparr>,
               body_text = [], content = [], resp_url = u\<rparr>
        else \<lparr>status_code = 404, reason = ''Not Found'', content_type = Some ''text/html'',
               json_body = None, body_text = body, content = body, resp_url = u\<rparr>),
      zip_entries := (\<lambda>c. if c = ''PK-archive'' then Some [''mypkg/__init__.py''] else None)\<rparr>"

definition local_config :: plugin_config where
  "local_config = \<lparr>protocol = ''local'', properties = [''repoUrl'' \<mapsto> ''/opt/models'']\<rparr>"

definition example_repositories :: "(string \<times> plugin_config) list" where
  "example_repositories = [(''shared'', local_config), (''wheels'', simple_config)]"




text \<open>A JSON listing of the package \<open>mypkg\<close> with the given file names, none yanked.\<close>

definition wheel_file :: "string \<Rightarrow> file_info" where
  "wheel_file fname =
     \<lparr>filename = Some fname, url = Some (''https://files.example/'' @ fname), hashes = [],
      yanked = None, packagetype = None\<rparr>"

definition listing :: "string list \<Rightarrow> package_obj" where
  "listing fnames =
     \<lparr>api_version = None, name = Some ''mypkg'', files = Some (map wheel_file fnames),
      summary = None, urls = None\<rparr>"

section \<open>Properties of the credential helpers\<close>

lemma index_str_found:
  "c \<in> set s \<Longrightarrow> index_str s c = Inr (length (takeWhile (\<lambda>x. x \<noteq> c) s))"
  by (simp add: index_str_def)

lemma username_Some_at: "username u = Some n \<Longrightarrow> CHR ''@'' \<in> set (netloc u)"
  by (auto simp: username_def userinfo_def rpartition_str_def split: if_splits prod.splits)

lemma username_None_iff: "username u = None \<longleftrightarrow> CHR ''@'' \<notin> set (netloc u)"
  by (auto simp: username_def userinfo_def rpartition_str_def partition_str_def
      split: if_splits prod.splits)

lemma take_index_takeWhile:
  "take (length (takeWhile P xs)) xs = takeWhile P xs"
  by (induction xs) auto

lemma drop_index_dropWhile:
  "drop (length (takeWhile P xs)) xs = dropWhile P xs"
  by (induction xs) auto

lemma rpartition_append_at:
  "rpartition_str (a @ CHR ''@'' # r) CHR ''@'' =
     (if CHR ''@'' \<in> set r
      then (a @ CHR ''@'' # fst (rpartition_str r CHR ''@''), True, snd (snd (rpartition_str r CHR ''@'')))
      else (a, True, r))"
  by (auto simp: rpartition_str_def takeWhile_append dropWhile_append takeWhile_eq_all_conv
      dropWhile_eq_Nil_conv)

lemma split_at_first:
  "c \<in> set s \<Longrightarrow> s = takeWhile (\<lambda>x. x \<noteq> c) s @ c # tl (dropWhile (\<lambda>x. x \<noteq> c) s)"
  by (induction s) auto

lemma hostinfo_netloc_cong:
  "snd (snd (rpartition_str (netloc u) CHR ''@'')) = snd (snd (rpartition_str (netloc v) CHR ''@''))
   \<Longrightarrow> hostinfo u = hostinfo v"
  by (simp add: hostinfo_def)

lemma hostpart_strip:
  "snd (snd (rpartition_str (c @ CHR ''@'' # strip_credentials n) CHR ''@'')) =
   snd (snd (rpartition_str n CHR ''@''))"
proof (cases "CHR ''@'' \<in> set n")
  case False
  then show ?thesis
    by (simp add: strip_credentials_def rpartition_append_at) (simp add: rpartition_str_def)
next
  case True
  let ?r = "tl (dropWhile (\<lambda>x. x \<noteq> CHR ''@'') n)"
  have n: "n = takeWhile (\<lambda>x. x \<noteq> CHR ''@'') n @ CHR ''@'' # ?r"
    using True by (rule split_at_first)
  have "snd (snd (rpartition_str n CHR ''@'')) =
        snd (snd (rpartition_str (takeWhile (\<lambda>x. x \<noteq> CHR ''@'') n @ CHR ''@'' # ?r) CHR ''@''))"
    using n by simp
  then show ?thesis using True
    by (simp add: strip_credentials_def rpartition_append_at)
qed

lemma count_at_strip:
  "count_list n CHR ''@'' \<le> 1 \<Longrightarrow> CHR ''@'' \<notin> set (strip_credentials n)"
proof (cases "CHR ''@'' \<in> set n")
  case False
  then show ?thesis by (simp add: strip_credentials_def)
next
  case True
  assume le: "count_list n CHR ''@'' \<le> 1"
  let ?t = "takeWhile (\<lambda>x. x \<noteq> CHR ''@'') n"
  let ?r = "tl (dropWhile (\<lambda>x. x \<noteq> CHR ''@'') n)"
  have "n = ?t @ CHR ''@'' # ?r" using True by (rule split_at_first)
  then have "count_list n CHR ''@'' = count_list (?t @ CHR ''@'' # ?r) CHR ''@''" by simp
  then have "count_list ?r CHR ''@'' = 0" using le by simp
  then show ?thesis using True by (simp add: strip_credentials_def count_list_0_iff)
qed

lemma apply_credentials_Some:
  "apply_credentials u (Some c) = Inr (u\<lparr>netloc := c @ ''@'' @ strip_credentials (netloc u)\<rparr>)"
proof (cases "username u")
  case None
  then show ?thesis using None [unfolded username_None_iff]
    by (simp add: apply_credentials_def strip_credentials_def)
next
  case (Some n)
  then have at: "CHR ''@'' \<in> set (netloc u)" by (rule username_Some_at)
  show ?thesis using Some at
    by (simp add: apply_credentials_def strip_credentials_def index_str_found [OF at]
        drop_Suc drop_tl drop_index_dropWhile)
qed


text \<open>
  What holds for every URL: no credentials leave the URL as it is; credentials change
  the authority only, to the credentials, an \<open>@\<close> and the old authority without its
  text up to the first \<open>@\<close>; host and port, as the standard library reads them, stay.
  For an authority with at most one \<open>@\<close> the supplied credentials are read back as
  the user information, and both helpers do what the specification says.
\<close>

lemma apply_credentials_facts:
  "apply_credentials u None = Inr u \<and>
   apply_credentials u (Some c) = Inr (u\<lparr>netloc := c @ ''@'' @ strip_credentials (netloc u)\<rparr>) \<and>
   hostinfo (u\<lparr>netloc := c @ ''@'' @ strip_credentials (netloc u)\<rparr>) = hostinfo u \<and>
   (count_list (netloc u) CHR ''@'' \<le> 1 \<longrightarrow>
      rpartition_str (c @ ''@'' @ strip_credentials (netloc u)) CHR ''@''
        = (c, True, strip_credentials (netloc u))) \<and>
   (username u = None \<longrightarrow> get_credentials u config = Inr (Some c) \<longrightarrow>
      apply_credentials u (Some c) = Inr (u\<lparr>netloc := c @ ''@'' @ netloc u\<rparr>) \<and>
      rpartition_str (c @ ''@'' @ netloc u) CHR ''@'' = (c, True, netloc u))"
proof (intro conjI impI)
  show "apply_credentials u None = Inr u" by (simp add: apply_credentials_def)
  show "apply_credentials u (Some c) = Inr (u\<lparr>netloc := c @ ''@'' @ strip_credentials (netloc u)\<rparr>)"
    by (rule apply_credentials_Some)
  show "hostinfo (u\<lparr>netloc := c @ ''@'' @ strip_credentials (netloc u)\<rparr>) = hostinfo u"
    by (rule hostinfo_netloc_cong) (simp add: hostpart_strip)
next
  assume "count_list (netloc u) CHR ''@'' \<le> 1"
  then have "CHR ''@'' \<notin> set (strip_credentials (netloc u))" by (rule count_at_strip)
  then show "rpartition_str (c @ ''@'' @ strip_credentials (netloc u)) CHR ''@''
        = (c, True, strip_credentials (netloc u))"
    by (simp add: rpartition_append_at)
next
  assume none: "username u = None"
  then have noat: "CHR ''@'' \<notin> set (netloc u)" by (simp add: username_None_iff)
  then show "apply_credentials u (Some c) = Inr (u\<lparr>netloc := c @ ''@'' @ netloc u\<rparr>)"
    using none by (simp add: apply_credentials_def)
  show "rpartition_str (c @ ''@'' @ netloc u) CHR ''@'' = (c, True, netloc u)"
    using noat by (simp add: rpartition_append_at)
qed

lemma single_at_rpartition:
  assumes "count_list n CHR ''@'' \<le> 1" and "CHR ''@'' \<in> set n"
  shows "rpartition_str n CHR ''@''
           = (takeWhile (\<lambda>x. x \<noteq> CHR ''@'') n, True, strip_credentials n)"
proof -
  let ?t = "takeWhile (\<lambda>x. x \<noteq> CHR ''@'') n"
  let ?r = "tl (dropWhile (\<lambda>x. x \<noteq> CHR ''@'') n)"
  have n: "n = ?t @ CHR ''@'' # ?r" using assms(2) by (rule split_at_first)
  have r: "strip_credentials n = ?r" using assms(2) by (simp add: strip_credentials_def)
  have "CHR ''@'' \<notin> set ?r" using count_at_strip [OF assms(1)] r by simp
  then have "rpartition_str (?t @ CHR ''@'' # ?r) CHR ''@'' = (?t, True, ?r)"
    by (simp add: rpartition_append_at)
  then show ?thesis using n r by simp
qed

lemma get_credentials_total: "\<exists>r. get_credentials u config = Inr r"
proof (cases "username u")
  case None
  then show ?thesis by (simp add: get_credentials_def Let_def)
next
  case (Some n)
  then have "CHR ''@'' \<in> set (netloc u)" by (rule username_Some_at)
  then show ?thesis by (simp add: get_credentials_def Let_def index_str_found)
qed

lemma get_credentials_single_at:
  assumes "count_list (netloc u) CHR ''@'' \<le> 1"
  shows "get_credentials u config = Inr (extract_credentials_spec u config)"
proof (cases "properties config ''token''")
  case (Some t)
  then show ?thesis
    by (simp add: get_credentials_def extract_credentials_spec_def get_plugin_property_def)
next
  case None
  note tok = None
  show ?thesis
  proof (cases "properties config ''username'' \<noteq> None \<and> properties config ''password'' \<noteq> None")
    case True
    then show ?thesis using tok
      by (auto simp: get_credentials_def extract_credentials_spec_def get_plugin_property_def)
  next
    case False
    note nopair = False
    show ?thesis
    proof (cases "username u")
      case None
      then show ?thesis using tok nopair
        by (auto simp: get_credentials_def extract_credentials_spec_def get_plugin_property_def
            split: option.splits)
    next
      case (Some n)
      then have at: "CHR ''@'' \<in> set (netloc u)" by (rule username_Some_at)
      have emb: "embedded_credentials (netloc u)
                   = Some (takeWhile (\<lambda>x. x \<noteq> CHR ''@'') (netloc u))"
        by (simp add: embedded_credentials_def single_at_rpartition [OF assms at])
      show ?thesis using tok nopair Some
        by (cases n)
          (auto simp: get_credentials_def extract_credentials_spec_def get_plugin_property_def
            index_str_found [OF at] take_index_takeWhile emb
            split: option.splits)
    qed
  qed
qed

lemma apply_credentials_single_at:
  assumes "count_list (netloc u) CHR ''@'' \<le> 1"
  shows "apply_credentials u credentials = Inr (apply_credentials_spec u credentials)"
proof (cases credentials)
  case None
  then show ?thesis by (simp add: apply_credentials_def apply_credentials_spec_def)
next
  case (Some c)
  have "host_part (netloc u) = strip_credentials (netloc u)"
  proof (cases "CHR ''@'' \<in> set (netloc u)")
    case True
    then show ?thesis by (simp add: host_part_def single_at_rpartition [OF assms])
  next
    case False
    then show ?thesis by (simp add: host_part_def strip_credentials_def rpartition_str_def)
  qed
  then show ?thesis using Some
    by (simp add: apply_credentials_Some apply_credentials_spec_def)
qed

text \<open>
  C4. The claim says that the credentials embedded in the authority are extracted
  verbatim. \<open>_get_credentials\<close> asks \<open>url.username\<close>, which reads the user information
  up to the last \<open>@\<close> of the authority, whether there are any, and then cuts the
  authority at its first \<open>@\<close>: for the authority \<open>user:p@ss@git.example.org\<close>, whose
  user is \<open>user\<close> with the password \<open>p@ss\<close>, it returns \<open>user:p\<close> and not the embedded
  \<open>user:p@ss\<close>.
\<close>

theorem get_credentials_cuts_at_first_at:
  "get_credentials at_url plain_config = Inr (Some ''user:p'') \<and>
   userinfo at_url = (Some ''user'', Some ''p@ss'') \<and>
   extract_credentials_spec at_url plain_config = Some ''user:p@ss''"
proof -
  have p: "properties plain_config ''token'' = None"
    "properties plain_config ''username'' = None"
    "properties plain_config ''password'' = None"
    by (simp_all add: plain_config_def)
  have n: "netloc at_url = ''user:p@ss@git.example.org''" by (simp add: at_url_def)
  have ui: "userinfo at_url = (Some ''user'', Some ''p@ss'')"
    by (simp add: userinfo_def n rpartition_str_def partition_str_def)
  have un: "username at_url = Some ''user''" by (simp add: username_def ui)
  have g: "get_credentials at_url plain_config = Inr (Some ''user:p'')"
    by (simp add: get_credentials_def get_plugin_property_def p un n index_str_def)
  have e: "extract_credentials_spec at_url plain_config = Some ''user:p@ss''"
    by (simp add: extract_credentials_spec_def p un n embedded_credentials_def rpartition_str_def)
  show ?thesis using g ui e by simp
qed

text \<open>
  C5. The claim says that the supplied credentials replace any previously embedded
  credentials. \<open>_apply_credentials\<close> cuts the old authority at its first \<open>@\<close>, as
  \<open>_get_credentials\<close> does: for the authority \<open>user:p@ss@git.example.org\<close> and the
  credentials \<open>tok\<close> it returns the authority \<open>tok@ss@git.example.org\<close>, whose user the
  standard library reads as \<open>tok@ss\<close>, where the specification asks for
  \<open>tok@git.example.org\<close>.
\<close>

theorem apply_credentials_cuts_at_first_at:
  "apply_credentials at_url (Some ''tok'') = Inr (at_url\<lparr>netloc := ''tok@ss@git.example.org''\<rparr>) \<and>
   userinfo (at_url\<lparr>netloc := ''tok@ss@git.example.org''\<rparr>) = (Some ''tok@ss'', None) \<and>
   apply_credentials_spec at_url (Some ''tok'') = at_url\<lparr>netloc := ''tok@git.example.org''\<rparr>"
proof -
  have n: "netloc at_url = ''user:p@ss@git.example.org''" by (simp add: at_url_def)
  have a: "apply_credentials at_url (Some ''tok'')
             = Inr (at_url\<lparr>netloc := ''tok@ss@git.example.org''\<rparr>)"
    by (simp add: apply_credentials_Some strip_credentials_def n)
  have b: "userinfo (at_url\<lparr>netloc := ''tok@ss@git.example.org''\<rparr>) = (Some ''tok@ss'', None)"
    by (simp add: userinfo_def rpartition_str_def partition_str_def)
  have c: "apply_credentials_spec at_url (Some ''tok'') = at_url\<lparr>netloc := ''tok@git.example.org''\<rparr>"
    by (simp add: apply_credentials_spec_def host_part_def n rpartition_str_def)
  show ?thesis using a b c by simp
qed

section \<open>Properties of the checkout keys\<close>

text \<open>
  C6. \<open>checkout_key\<close> is a function of the backend and the artifact reference alone: a
  constant for the integrated backend, a constant for the local backend, the version of
  the artifact for the Git and PyPI backends; no other field of the reference matters.
\<close>

theorem checkout_key_by_backend:
  "checkout_key (IntegratedSource c) m = ''trac_integrated'' \<and>
   checkout_key (LocalRepository c r) m = ''trac_local'' \<and>
   checkout_key (GitRepository c g) m = version m \<and>
   checkout_key (PyPiRepository c i iu f) m = version m \<and>
   checkout_key b (m\<lparr>repository := r', packageGroup := g', package := p', path := q'\<rparr>)
     = checkout_key b m"
  by (cases b) simp_all

section \<open>Construction of the PyPI backend\<close>

text \<open>
  C7, the claim as stated fails: a configuration that sets both \<open>pipIndex\<close> and
  \<open>pipIndexUrl\<close> constructs a backend, so construction does not require exactly one of
  the two properties.
\<close>

theorem pypi_init_accepts_both_properties:
  "PyPiRepository_init both_config
     = Inr (PyPiRepository both_config (Some ''https://pypi.example/pypi'')
              (Some ''https://pypi.example/simple'') None) \<and>
   properties both_config ''pipIndex'' = Some ''https://pypi.example/pypi'' \<and>
   properties both_config ''pipIndexUrl'' = Some ''https://pypi.example/simple''"
proof -
  have a: "properties both_config ''pipIndex'' = Some ''https://pypi.example/pypi''"
    and b: "properties both_config ''pipIndexUrl'' = Some ''https://pypi.example/simple''"
    and c: "properties both_config ''pipSimpleFormat'' = None"
    by (simp_all add: both_config_def)
  show ?thesis
    by (simp add: PyPiRepository_init_def get_plugin_property_def Let_def a b c)
qed

text \<open>
  C7, amended. Construction requires at least one of \<open>pipIndex\<close> and \<open>pipIndexUrl\<close>: it
  raises a configuration error when both are absent and succeeds otherwise, also when both
  are set. For every constructed backend exactly one of the two index protocols is in
  effect in \<open>do_checkout\<close>: the simple index whenever \<open>pipIndexUrl\<close> is set, and the
  metadata endpoint of \<open>pipIndex\<close> otherwise.
\<close>

theorem pypi_init_index_mode:
  "(properties c ''pipIndex'' = None \<and> properties c ''pipIndexUrl'' = None \<longrightarrow>
      PyPiRepository_init c
        = Inl (EConfigParse ''Neither [pipIndex] nor [pipIndexUrl is set in PyPi repository config'')) \<and>
   (properties c ''pipIndex'' \<noteq> None \<or> properties c ''pipIndexUrl'' \<noteq> None \<longrightarrow>
      PyPiRepository_init c
        = Inr (PyPiRepository c (properties c ''pipIndex'') (properties c ''pipIndexUrl'')
                 (properties c ''pipSimpleFormat''))) \<and>
   (PyPiRepository_init c = Inr r \<longrightarrow>
      (\<exists>i iu f. r = PyPiRepository c i iu f \<and>
         (case iu of
            Some su \<Rightarrow> pypi_index_query w c i iu f m = pypi_simple_query w c su f m
          | None \<Rightarrow> (\<exists>si. i = Some si \<and> pypi_index_query w c i iu f m = pypi_json_query w c si m))))"
  by (auto simp: PyPiRepository_init_def get_plugin_property_def pypi_index_query_def Let_def
      split: option.splits if_splits)


theorem pypi_init_index_mode_witness:
  "PyPiRepository_init empty_config
     = Inl (EConfigParse ''Neither [pipIndex] nor [pipIndexUrl is set in PyPi repository config'') \<and>
   PyPiRepository_init simple_config
     = Inr (PyPiRepository simple_config None (Some ''https://pypi.example/simple'') None) \<and>
   pypi_index_query example_platform simple_config None (Some ''https://pypi.example/simple'') None
       example_model
     = pypi_simple_query example_platform simple_config ''https://pypi.example/simple'' None
         example_model"
proof -
  have e: "properties empty_config ''pipIndex'' = None \<and> properties empty_config ''pipIndexUrl'' = None"
    by (simp add: empty_config_def)
  have s: "properties simple_config ''pipIndex'' = None"
    "properties simple_config ''pipIndexUrl'' = Some ''https://pypi.example/simple''"
    "properties simple_config ''pipSimpleFormat'' = None"
    by (simp_all add: simple_config_def)
  show ?thesis
    using pypi_init_index_mode [of empty_config]
      pypi_init_index_mode [of simple_config
        "PyPiRepository simple_config None (Some ''https://pypi.example/simple'') None"
        example_platform example_model] e s
    by simp
qed


section \<open>Properties of the HTML parser\<close>

lemma filter_key_other:
  "k \<noteq> k' \<Longrightarrow>
   filter (\<lambda>a. fst a = k) (filter (\<lambda>a. fst a \<noteq> k') xs) = filter (\<lambda>a. fst a = k) xs"
  by (induction xs) auto

text \<open>
  What the loop of \<open>handle_endtag\<close> leaves: the stack as it is when the popped tag is
  the closing one, and otherwise the stack below the nearest open tag of that name,
  which is the empty stack when there is none. A closing tag other than \<open>a\<close> that
  meets a non-empty stack does not fail, and an anchor without exactly one \<open>href\<close>
  emits nothing.
\<close>

lemma pop_until_eq:
  "pop_until tag stack_tag stk =
     (if stack_tag = tag then stk
      else rev (tl (dropWhile (\<lambda>e. fst e \<noteq> tag) (rev stk))))"
proof (induction stk arbitrary: stack_tag rule: rev_induct)
  case Nil
  show ?case by (subst pop_until.simps) (simp del: pop_until.simps)
next
  case (snoc x xs)
  show ?case
  proof (cases "stack_tag = tag")
    case True
    then show ?thesis by (subst pop_until.simps) (simp del: pop_until.simps)
  next
    case False
    then have "pop_until tag stack_tag (xs @ [x]) = pop_until tag (fst x) xs"
      by (subst pop_until.simps) (simp del: pop_until.simps)
    then show ?thesis using False snoc.IH [of "fst x"] by (simp del: pop_until.simps)
  qed
qed

lemma handle_endtag_nonempty_other_tag:
  "stack p \<noteq> [] \<Longrightarrow> tag \<noteq> ''a'' \<Longrightarrow>
   handle_endtag w tag p
     = Inr (p\<lparr>stack := pop_until tag (fst (last (stack p))) (butlast (stack p))\<rparr>)"
  by (simp add: handle_endtag_def Let_def split: prod.splits del: pop_until.simps)

lemma record_link_without_single_href:
  "length (filter (\<lambda>a. fst a = ''href'') attrs) \<noteq> 1 \<Longrightarrow> record_link w fname attrs p = Inr p"
  by (simp add: record_link_def)

text \<open>
  C10. The claim says that handling a closing tag never fails, also on an empty stack.
  \<open>handle_endtag\<close> pops the stack before it looks at it, so a closing tag that meets an
  empty stack raises \<open>IndexError\<close>: on a fresh parser, and after a mismatched closing tag
  has emptied the stack.
\<close>

theorem handle_endtag_empty_stack_fails:
  "handle_endtag w tag (PypiSimpleHtmlParser_init pkg page) = Inl IndexError \<and>
   feed w [EndTag ''a''] (PypiSimpleHtmlParser_init pkg page) = Inl IndexError \<and>
   feed w [StartTag ''body'' [], EndTag ''p'', EndTag ''body'']
     (PypiSimpleHtmlParser_init pkg page) = Inl IndexError"
  by (simp add: handle_endtag_def handle_starttag_def PypiSimpleHtmlParser_init_def)

text \<open>
  C9. The claim says that a \<open>data-requires-python\<close> attribute is recorded in the emitted
  file record. \<open>_record_link\<close> reads the attribute into \<open>required_python\<close> and never uses
  it: removing the attribute from the anchor changes nothing, and the record emitted for
  the example of the specification, with the attribute added, holds the file name, the
  URL without the fragment, the hash and the yanked flag only.
\<close>

theorem record_link_ignores_requires_python:
  "record_link w fname attrs p
     = record_link w fname (filter (\<lambda>a. fst a \<noteq> ''data-requires-python'') attrs) p \<and>
   feed w [StartTag ''a'' [(''href'', Some ''pkg-1.0-any.whl#sha256=abc''), (''data-yanked'', None),
                           (''data-requires-python'', Some ''>=3.8'')],
           Data ''pkg-1.0-any.whl'', EndTag ''a'']
        (PypiSimpleHtmlParser_init ''pkg'' page)
     = Inr \<lparr>package_url = page, stack = [], data = Some ''pkg-1.0-any.whl'',
            response = \<lparr>api_version = None, name = Some ''pkg'',
              files = Some [\<lparr>filename = Some ''pkg-1.0-any.whl'',
                              url = Some (urljoin w page ''pkg-1.0-any.whl''),
                              hashes = [(''sha256'', ''abc'')],
                              yanked = Some (YankedBool True), packagetype = None\<rparr>],
              summary = None, urls = None\<rparr>\<rparr>"
proof
  show "record_link w fname attrs p
     = record_link w fname (filter (\<lambda>a. fst a \<noteq> ''data-requires-python'') attrs) p"
  proof -
    have h: "filter (\<lambda>a. fst a = ''href'') (filter (\<lambda>a. fst a \<noteq> ''data-requires-python'') attrs)
               = filter (\<lambda>a. fst a = ''href'') attrs"
      by (rule filter_key_other) simp
    have y: "filter (\<lambda>a. fst a = ''data-yanked'') (filter (\<lambda>a. fst a \<noteq> ''data-requires-python'') attrs)
               = filter (\<lambda>a. fst a = ''data-yanked'') attrs"
      by (rule filter_key_other) simp
    show ?thesis
      by (simp add: record_link_def Let_def h y del: filter_filter)
  qed
  have strip: "strip ''pkg-1.0-any.whl'' = ''pkg-1.0-any.whl''"
    by (simp add: strip_def py_isspace_def)
  show "feed w [StartTag ''a'' [(''href'', Some ''pkg-1.0-any.whl#sha256=abc''), (''data-yanked'', None),
                           (''data-requires-python'', Some ''>=3.8'')],
           Data ''pkg-1.0-any.whl'', EndTag ''a'']
        (PypiSimpleHtmlParser_init ''pkg'' page)
     = Inr \<lparr>package_url = page, stack = [], data = Some ''pkg-1.0-any.whl'',
            response = \<lparr>api_version = None, name = Some ''pkg'',
              files = Some [\<lparr>filename = Some ''pkg-1.0-any.whl'',
                              url = Some (urljoin w page ''pkg-1.0-any.whl''),
                              hashes = [(''sha256'', ''abc'')],
                              yanked = Some (YankedBool True), packagetype = None\<rparr>],
              summary = None, urls = None\<rparr>\<rparr>"
    by (simp add: handle_endtag_def handle_starttag_def handle_data_def strip record_link_def
        PypiSimpleHtmlParser_init_def)
qed


section \<open>Properties of the PyPI download\<close>

lemma index_config_props:
  "properties index_config ''token'' = None"
  "properties index_config ''username'' = None"
  "properties index_config ''password'' = None"
  by (simp_all add: index_config_def)

lemma example_urlparse_index:
  "urlparse (download_platform body) ''https://pypi.example/pypi''
     = \<lparr>scheme = ''https'', netloc = ''pypi.example'', url_path = ''/pypi'',
        params = [], query = [], fragment = []\<rparr>"
  by (simp add: download_platform_def example_platform_def)

lemma example_urlparse_file:
  "urlparse (download_platform body) ''https://files.example/mypkg-1.0.0-py3-none-any.whl''
     = \<lparr>scheme = ''https'', netloc = ''files.example'', url_path = ''/mypkg-1.0.0-py3-none-any.whl'',
        params = [], query = [], fragment = []\<rparr>"
  by (simp add: download_platform_def example_platform_def)

lemma example_geturl:
  "geturl (download_platform body) u = scheme u @ ''://'' @ netloc u @ url_path u"
  by (simp add: download_platform_def example_platform_def)

lemma example_index_query:
  "pypi_index_query (download_platform body) index_config (Some ''https://pypi.example/pypi'')
       None None example_model
     = (Inr (Some ''mypkg-1.0.0-py3-none-any.whl'',
             StrUrl \<lparr>scheme = ''https'', netloc = ''files.example'',
               url_path = ''/mypkg-1.0.0-py3-none-any.whl'',
               params = [], query = [], fragment = []\<rparr>),
        [HttpGet ''https://pypi.example/pypi/mypkg/1.0.0/json'' [(''accept'', ''application/json'')]])"
proof -
  have creds: "get_credentials \<lparr>scheme = ''https'', netloc = ''pypi.example'', url_path = ''/pypi'',
        params = [], query = [], fragment = []\<rparr> index_config = Inr None"
    by (simp add: get_credentials_def get_plugin_property_def index_config_props
        username_def userinfo_def rpartition_str_def)
  have q: "pypi_package_query (download_platform body) JSON_PACKAGE_PATH
             \<lparr>scheme = ''https'', netloc = ''pypi.example'', url_path = ''/pypi'',
        params = [], query = [], fragment = []\<rparr> [(''accept'', ''application/json'')] None example_model
           = (Inr (http_get (download_platform body) ''https://pypi.example/pypi/mypkg/1.0.0/json''
                      [(''accept'', ''application/json'')]),
              [HttpGet ''https://pypi.example/pypi/mypkg/1.0.0/json'' [(''accept'', ''application/json'')]])"
    by (simp add: pypi_package_query_def apply_credentials_def JSON_PACKAGE_PATH_def
        example_model_def example_geturl Let_def)
      (simp add: download_platform_def)
  have h: "http_get (download_platform body) ''https://pypi.example/pypi/mypkg/1.0.0/json''
                      [(''accept'', ''application/json'')]
     = \<lparr>status_code = 200, reason = ''OK'', content_type = Some ''application/json'',
               json_body = Some \<lparr>api_version = None, name = None, files = None,
                 summary = Some ''An example'',
                 urls = Some [\<lparr>filename = Some ''mypkg-1.0.0-py3-none-any.whl'',
                                url = Some ''https://files.example/mypkg-1.0.0-py3-none-any.whl'',
                                hashes = [], yanked = None,
                                packagetype = Some ''bdist_wheel''\<rparr>]\<rparr>,
               body_text = [], content = [],
               resp_url = ''https://pypi.example/pypi/mypkg/1.0.0/json''\<rparr>"
    by (simp add: download_platform_def)
  show ?thesis
    by (simp add: pypi_index_query_def pypi_json_query_def example_urlparse_index creds q h
        example_urlparse_file apply_credentials_def)
qed

text \<open>
  C3. The claim says that a non-2xx status of the file download is a repository error
  naming status and reason, and that nothing is extracted then. \<open>do_checkout\<close> never reads
  the status of the download: with status 404 the body goes to the archive reader, which
  raises \<open>BadZipFile\<close> for a body that is no archive and otherwise extracts it into the
  checkout directory.
\<close>

theorem pypi_download_status_not_checked:
  "status_code (http_get (download_platform body)
      ''https://files.example/mypkg-1.0.0-py3-none-any.whl'' []) = 404 \<and>
   pypi_do_checkout (download_platform ''<html>Not Found</html>'') index_config
       (Some ''https://pypi.example/pypi'') None None example_model ''/tmp/checkout''
     = (Inl BadZipFile,
        [HttpGet ''https://pypi.example/pypi/mypkg/1.0.0/json'' [(''accept'', ''application/json'')],
         HttpGet ''https://files.example/mypkg-1.0.0-py3-none-any.whl'' []]) \<and>
   pypi_do_checkout (download_platform ''PK-archive'') index_config
       (Some ''https://pypi.example/pypi'') None None example_model ''/tmp/checkout''
     = (Inr (Some ''/tmp/checkout''),
        [HttpGet ''https://pypi.example/pypi/mypkg/1.0.0/json'' [(''accept'', ''application/json'')],
         HttpGet ''https://files.example/mypkg-1.0.0-py3-none-any.whl'' [],
         ExtractAll ''/tmp/checkout'' [''mypkg/__init__.py'']])"
proof -
  have g: "\<And>body. http_get (download_platform body)
      ''https://files.example/mypkg-1.0.0-py3-none-any.whl'' []
     = \<lparr>status_code = 404, reason = ''Not Found'', content_type = Some ''text/html'',
               json_body = None, body_text = body, content = body,
               resp_url = ''https://files.example/mypkg-1.0.0-py3-none-any.whl''\<rparr>"
    by (simp add: download_platform_def)
  have z: "\<And>body c. zip_entries (download_platform body) c
             = (if c = ''PK-archive'' then Some [''mypkg/__init__.py''] else None)"
    by (simp add: download_platform_def)
  show ?thesis
    by (simp add: pypi_do_checkout_def example_index_query example_geturl g z)
qed

section \<open>Properties of the repository manager\<close>

lemma init_loaders_ok:
  "init_loaders types repos ls store = (Inr ls', store') \<Longrightarrow> distinct (map fst repos) \<Longrightarrow>
     length store' = length store + length repos \<and>
     take (length store) store' = store \<and>
     (\<forall>i<length repos.
        ls' (fst (repos ! i)) = Some (length store + i) \<and>
        (\<exists>ctor. types (protocol (snd (repos ! i))) = Some ctor \<and>
                ctor (snd (repos ! i)) = Inr (store' ! (length store + i)))) \<and>
     (\<forall>n. n \<notin> fst ` set repos \<longrightarrow> ls' n = ls n)"
proof (induction repos arbitrary: ls store)
  case Nil
  then show ?case by simp
next
  case (Cons entry rest)
  obtain repo_name repo_config where entry: "entry = (repo_name, repo_config)"
    by (cases entry)
  from Cons.prems(1) entry obtain loader_class loader where
    ty: "types (protocol repo_config) = Some loader_class" and
    ctor: "loader_class repo_config = Inr loader" and
    rec: "init_loaders types rest (ls(repo_name \<mapsto> length store)) (store @ [loader]) = (Inr ls', store')"
    by (auto split: option.splits sum.splits)
  from Cons.prems(2) entry have dist: "distinct (map fst rest)" and fresh: "repo_name \<notin> fst ` set rest"
    by auto
  note ih = Cons.IH [OF rec dist]
  from ih have len: "length store' = length store + 1 + length rest" by simp
  from ih have tk: "take (Suc (length store)) store' = store @ [loader]" by simp
  have tk0: "take (length store) store' = store"
  proof -
    have "take (length store) (take (Suc (length store)) store') = take (length store) (store @ [loader])"
      using tk by simp
    then show ?thesis by (simp add: min_def)
  qed
  have at: "store' ! length store = loader"
  proof -
    have "take (Suc (length store)) store' ! length store = (store @ [loader]) ! length store"
      using tk by simp
    then show ?thesis by simp
  qed
  from ih have later: "\<forall>i<length rest.
        ls' (fst (rest ! i)) = Some (length store + Suc i) \<and>
        (\<exists>ctor. types (protocol (snd (rest ! i))) = Some ctor \<and>
                ctor (snd (rest ! i)) = Inr (store' ! (length store + Suc i)))"
    by simp
  from ih fresh have first: "ls' repo_name = Some (length store)" by simp
  from ih have other: "\<forall>n. n \<notin> fst ` set rest \<longrightarrow> ls' n = (ls(repo_name \<mapsto> length store)) n"
    by simp
  have all: "\<forall>i<length (entry # rest).
        ls' (fst ((entry # rest) ! i)) = Some (length store + i) \<and>
        (\<exists>ctor. types (protocol (snd ((entry # rest) ! i))) = Some ctor \<and>
                ctor (snd ((entry # rest) ! i)) = Inr (store' ! (length store + i)))"
  proof (intro allI impI)
    fix i assume i: "i < length (entry # rest)"
    show "ls' (fst ((entry # rest) ! i)) = Some (length store + i) \<and>
        (\<exists>ctor. types (protocol (snd ((entry # rest) ! i))) = Some ctor \<and>
                ctor (snd ((entry # rest) ! i)) = Inr (store' ! (length store + i)))"
    proof (cases i)
      case 0
      then show ?thesis using first ty ctor at entry by simp
    next
      case (Suc j)
      then show ?thesis using later i by simp
    qed
  qed
  have unk: "\<forall>n. n \<notin> fst ` set (entry # rest) \<longrightarrow> ls' n = ls n"
    using other entry by auto
  show ?case using len tk0 all unk by simp
qed

text \<open>
  C8. For a manager built from a configuration (the entries of a dictionary, so with
  distinct names): construction adds exactly one backend object to the store per
  configured repository, built by the constructor registered for its protocol from its own
  configuration, and leaves the objects that were there untouched; \<open>get_repository\<close> with
  the name of the i-th entry returns the reference of the i-th of these objects, on every
  call, since it reads the manager and changes nothing; and for every name that is not
  configured it raises the "unknown or not configured" error.
\<close>

theorem manager_caches_backends:
  assumes "distinct (map fst repos)"
    and "RepositoryManager_init types repos store = (Inr mgr, store')"
  shows "length store' = length store + length repos \<and>
     take (length store) store' = store \<and>
     (\<forall>i<length repos.
        get_repository mgr (fst (repos ! i)) = Inr (length store + i) \<and>
        (\<exists>ctor. types (protocol (snd (repos ! i))) = Some ctor \<and>
                ctor (snd (repos ! i)) = Inr (store' ! (length store + i)))) \<and>
     (\<forall>n. n \<notin> fst ` set repos \<longrightarrow>
        get_repository mgr n
          = Inl (EModelRepoConfig (''Model repository ['' @ n @ ''] is unknown or not configured''
                   @ '' (this could indicate a missing repository entry in the system config)'')))"
proof -
  from assms(2) obtain ls where
    run: "init_loaders types repos Map.empty store = (Inr ls, store')" and mgr: "mgr = \<lparr>loaders = ls\<rparr>"
    by (auto simp: RepositoryManager_init_def split: prod.splits sum.splits)
  note ok = init_loaders_ok [OF run assms(1)]
  have get: "\<And>n. loaders mgr n = ls n" by (simp add: mgr)
  show ?thesis using ok by (simp add: get_repository_def get)
qed

theorem manager_caches_backends_witness:
  "distinct (map fst example_repositories) \<and>
   RepositoryManager_init (builtin_repo_types example_platform) example_repositories []
     = (Inr \<lparr>loaders = [''shared'' \<mapsto> 0, ''wheels'' \<mapsto> 1]\<rparr>,
        [LocalRepository local_config ''/opt/models'',
         PyPiRepository simple_config None (Some ''https://pypi.example/simple'') None]) \<and>
   get_repository \<lparr>loaders = [''shared'' \<mapsto> 0, ''wheels'' \<mapsto> 1]\<rparr> ''shared'' = Inr 0 \<and>
   get_repository \<lparr>loaders = [''shared'' \<mapsto> 0, ''wheels'' \<mapsto> 1]\<rparr> ''wheels'' = Inr 1 \<and>
   get_repository \<lparr>loaders = [''shared'' \<mapsto> 0, ''wheels'' \<mapsto> 1]\<rparr> ''other''
     = Inl (EModelRepoConfig (''Model repository [other] is unknown or not configured''
              @ '' (this could indicate a missing repository entry in the system config)''))"
proof -
  have d: "distinct (map fst example_repositories)"
    by (simp add: example_repositories_def)
  have lp: "properties local_config ''repoUrl'' = Some ''/opt/models''"
    by (simp add: local_config_def)
  have l: "LocalRepository_init local_config = Inr (LocalRepository local_config ''/opt/models'')"
    by (simp add: LocalRepository_init_def get_plugin_property_def lp)
  have sp: "properties simple_config ''pipIndex'' = None"
    "properties simple_config ''pipIndexUrl'' = Some ''https://pypi.example/simple''"
    "properties simple_config ''pipSimpleFormat'' = None"
    by (simp_all add: simple_config_def)
  have p: "PyPiRepository_init simple_config
     = Inr (PyPiRepository simple_config None (Some ''https://pypi.example/simple'') None)"
    by (simp add: PyPiRepository_init_def get_plugin_property_def sp)
  have pl: "protocol local_config = ''local''" and ps: "protocol simple_config = ''pypi''"
    by (simp_all add: local_config_def simple_config_def)
  have i: "RepositoryManager_init (builtin_repo_types example_platform) example_repositories []
     = (Inr \<lparr>loaders = [''shared'' \<mapsto> 0, ''wheels'' \<mapsto> 1]\<rparr>,
        [LocalRepository local_config ''/opt/models'',
         PyPiRepository simple_config None (Some ''https://pypi.example/simple'') None])"
    by (simp add: RepositoryManager_init_def example_repositories_def builtin_repo_types_def
        l p pl ps)
  have n: "''other'' \<notin> fst ` set example_repositories"
    by (simp add: example_repositories_def)
  have len: "length example_repositories = 2" by (simp add: example_repositories_def)
  have e0: "fst (example_repositories ! 0) = ''shared''"
    and e1: "fst (example_repositories ! 1) = ''wheels''"
    by (simp_all add: example_repositories_def)
  from manager_caches_backends [OF d i]
  have every: "\<forall>i<length example_repositories.
        get_repository \<lparr>loaders = [''shared'' \<mapsto> 0, ''wheels'' \<mapsto> 1]\<rparr>
          (fst (example_repositories ! i)) = Inr (0 + i)"
    and unknown: "get_repository \<lparr>loaders = [''shared'' \<mapsto> 0, ''wheels'' \<mapsto> 1]\<rparr> ''other''
     = Inl (EModelRepoConfig (''Model repository [other] is unknown or not configured''
              @ '' (this could indicate a missing repository entry in the system config)''))"
    using n by simp_all
  have g0: "get_repository \<lparr>loaders = [''shared'' \<mapsto> 0, ''wheels'' \<mapsto> 1]\<rparr> ''shared'' = Inr 0"
    using every [rule_format, of 0] len e0 by simp
  have g1: "get_repository \<lparr>loaders = [''shared'' \<mapsto> 0, ''wheels'' \<mapsto> 1]\<rparr> ''wheels'' = Inr 1"
    using every [rule_format, of 1] len e1 by simp
  show ?thesis using d i g0 g1 unknown by simp
qed

section \<open>PyPI simple index: selection of the package file\<close>

text \<open>
  The loop keeps, in the order of the listing, the entries whose file name the compiled
  pattern matches and whose \<open>yanked\<close> entry is not truthy.
\<close>

lemma collect_matches_filter:
  "collect_matches file_pattern fs
     = map (\<lambda>fi. (file_name fi, url fi, the (file_pattern (file_name fi))))
         (filter (\<lambda>fi. file_pattern (file_name fi) \<noteq> None \<and> \<not> truthy_yanked (yanked fi)) fs)"
  by (induction fs) (auto simp: Let_def file_name_def split: option.splits)

text \<open>
  Once the pattern has compiled, the three outcomes follow the number of kept entries:
  none is the error \<open>No package found\<close>, more than one is the error
  \<open>Multiple packages found\<close> with the targets of all of them, and exactly one returns
  the file name and the url of that entry.
\<close>

lemma pypi_simple_parse_response_outcomes:
  assumes c: "re_compile w (replace_str pname CHR ''-'' ''_'' @ ''-''
                @ replace_str (version m) CHR ''.'' [CHR 0x5C, CHR ''.''] @ ''-'') = Some fp"
    and pn: "pname = (if truthy_str (name obj) then the (name obj) else package m)"
    and k: "kept = filter (\<lambda>fi. fp (file_name fi) \<noteq> None \<and> \<not> truthy_yanked (yanked fi))
                     (case files obj of Some l \<Rightarrow> l | None \<Rightarrow> [])"
  shows "pypi_simple_parse_response w m obj =
     (if kept = []
      then Inl (EModelRepo (''No package found for ['' @ pname @ ''] version ['' @ version m @ '']''))
      else if length kept > 1
      then Inl (EModelRepo (''Multiple packages found for ['' @ pname @ ''] version [''
                  @ version m @ '']'' @ '' (targets: ''
                  @ join_str '', '' (map (\<lambda>fi. the (fp (file_name fi))) kept) @ '')''))
      else Inr (Some (file_name (hd kept)), url (hd kept)))"
proof -
  have m: "collect_matches fp (case files obj of Some l \<Rightarrow> l | None \<Rightarrow> [])
     = map (\<lambda>fi. (file_name fi, url fi, the (fp (file_name fi)))) kept"
    unfolding k by (rule collect_matches_filter)
  have t: "map (\<lambda>m. snd (snd m)) (map (\<lambda>fi. (file_name fi, url fi, the (fp (file_name fi)))) kept)
     = map (\<lambda>fi. the (fp (file_name fi))) kept"
    by simp
  have h: "kept \<noteq> [] \<Longrightarrow>
     hd (map (\<lambda>fi. (file_name fi, url fi, the (fp (file_name fi)))) kept)
     = (file_name (hd kept), url (hd kept), the (fp (file_name (hd kept))))"
    by (simp add: hd_map)
  show ?thesis
    unfolding pypi_simple_parse_response_def Let_def pn [symmetric] c option.case m t
    using h by (cases "kept = []") simp_all
qed

text \<open>
  C2. The claim says that selection keeps exactly the entries whose file name has the
  form \<open>{name}-{version}-{target}.whl\<close>. The pattern of \<open>_pypi_simple_parse_response\<close>
  ends with \<open>\.whl\<close> and no end anchor, and it is used with \<open>match\<close>: for version
  \<open>1.0.0\<close> the entry \<open>mypkg-1.0.0-py3-none-any.whl.metadata\<close>, which is no wheel name, is
  kept and returned as the package file. The version goes into the pattern with only its
  dots escaped: for version \<open>1.0.0+cpu\<close> the \<open>+\<close> is read as a quantifier, so that the
  entry \<open>mypkg-1.0.0+cpu-py3-none-any.whl\<close>, which has exactly the form of the claim, is
  not kept and the selection fails with \<open>No package found\<close>.
\<close>

theorem pypi_simple_selection_not_anchored:
  "pypi_simple_parse_response w example_model (listing [''mypkg-1.0.0-py3-none-any.whl.metadata''])
     = Inr (Some ''mypkg-1.0.0-py3-none-any.whl.metadata'',
            Some ''https://files.example/mypkg-1.0.0-py3-none-any.whl.metadata'') \<and>
   \<not> is_wheel_name ''mypkg'' ''1.0.0'' ''mypkg-1.0.0-py3-none-any.whl.metadata'' \<and>
   pypi_simple_parse_response w (example_model\<lparr>version := ''1.0.0+cpu''\<rparr>)
       (listing [''mypkg-1.0.0+cpu-py3-none-any.whl''])
     = Inl (EModelRepo ''No package found for [mypkg] version [1.0.0+cpu]'') \<and>
   is_wheel_name ''mypkg'' ''1.0.0+cpu'' ''mypkg-1.0.0+cpu-py3-none-any.whl''"
proof -
  have pkg: "package example_model = ''mypkg''" and ver: "version example_model = ''1.0.0''"
    by (simp_all add: example_model_def)
  have nm: "\<And>fs. name (listing fs) = Some ''mypkg''"
    and fl: "\<And>fs. files (listing fs) = Some (map wheel_file fs)"
    by (simp_all add: listing_def)
  have p1: "parse_rx (''mypkg-1'' @ [CHR 0x5C] @ ''.0'' @ [CHR 0x5C] @ ''.0-'')
     = Some [(RChar CHR ''m'', QOne), (RChar CHR ''y'', QOne), (RChar CHR ''p'', QOne),
             (RChar CHR ''k'', QOne), (RChar CHR ''g'', QOne), (RChar CHR ''-'', QOne),
             (RChar CHR ''1'', QOne), (RChar CHR ''.'', QOne), (RChar CHR ''0'', QOne),
             (RChar CHR ''.'', QOne), (RChar CHR ''0'', QOne), (RChar CHR ''-'', QOne)]"
    by simp
  have p2: "parse_rx (''mypkg-1'' @ [CHR 0x5C] @ ''.0'' @ [CHR 0x5C] @ ''.0+cpu-'')
     = Some [(RChar CHR ''m'', QOne), (RChar CHR ''y'', QOne), (RChar CHR ''p'', QOne),
             (RChar CHR ''k'', QOne), (RChar CHR ''g'', QOne), (RChar CHR ''-'', QOne),
             (RChar CHR ''1'', QOne), (RChar CHR ''.'', QOne), (RChar CHR ''0'', QOne),
             (RChar CHR ''.'', QOne), (RChar CHR ''0'', QPlus), (RChar CHR ''c'', QOne),
             (RChar CHR ''p'', QOne), (RChar CHR ''u'', QOne), (RChar CHR ''-'', QOne)]"
    by simp
  have r1: "rests [(RChar CHR ''m'', QOne), (RChar CHR ''y'', QOne), (RChar CHR ''p'', QOne),
             (RChar CHR ''k'', QOne), (RChar CHR ''g'', QOne), (RChar CHR ''-'', QOne),
             (RChar CHR ''1'', QOne), (RChar CHR ''.'', QOne), (RChar CHR ''0'', QOne),
             (RChar CHR ''.'', QOne), (RChar CHR ''0'', QOne), (RChar CHR ''-'', QOne)]
            ''mypkg-1.0.0-py3-none-any.whl.metadata''
     = [''py3-none-any.whl.metadata'']"
    by simp
  have r2: "rests [(RChar CHR ''m'', QOne), (RChar CHR ''y'', QOne), (RChar CHR ''p'', QOne),
             (RChar CHR ''k'', QOne), (RChar CHR ''g'', QOne), (RChar CHR ''-'', QOne),
             (RChar CHR ''1'', QOne), (RChar CHR ''.'', QOne), (RChar CHR ''0'', QOne),
             (RChar CHR ''.'', QOne), (RChar CHR ''0'', QPlus), (RChar CHR ''c'', QOne),
             (RChar CHR ''p'', QOne), (RChar CHR ''u'', QOne), (RChar CHR ''-'', QOne)]
            ''mypkg-1.0.0+cpu-py3-none-any.whl''
     = []"
    by simp
  have t1: "match_target ''py3-none-any.whl.metadata'' = Some ''py3-none-any''"
    by simp
  have first: "pypi_simple_parse_response w example_model
                 (listing [''mypkg-1.0.0-py3-none-any.whl.metadata''])
     = Inr (Some ''mypkg-1.0.0-py3-none-any.whl.metadata'',
            Some ''https://files.example/mypkg-1.0.0-py3-none-any.whl.metadata'')"
    using p1 r1 t1
    by (simp add: pypi_simple_parse_response_def Let_def nm fl pkg ver replace_str_def
        re_compile_def re_match_def wheel_file_def)
  have second: "pypi_simple_parse_response w (example_model\<lparr>version := ''1.0.0+cpu''\<rparr>)
       (listing [''mypkg-1.0.0+cpu-py3-none-any.whl''])
     = Inl (EModelRepo ''No package found for [mypkg] version [1.0.0+cpu]'')"
    using p2 r2
    by (simp add: pypi_simple_parse_response_def Let_def nm fl pkg replace_str_def
        re_compile_def re_match_def wheel_file_def)
  have no: "\<not> is_wheel_name ''mypkg'' ''1.0.0'' ''mypkg-1.0.0-py3-none-any.whl.metadata''"
  proof
    assume "is_wheel_name ''mypkg'' ''1.0.0'' ''mypkg-1.0.0-py3-none-any.whl.metadata''"
    then obtain target where "''py3-none-any.whl.metadata'' = target @ ''.whl''"
      by (auto simp: is_wheel_name_def)
    then have "rev ''py3-none-any.whl.metadata'' = rev (target @ ''.whl'')" by simp
    then show False by simp
  qed
  have yes: "is_wheel_name ''mypkg'' ''1.0.0+cpu'' ''mypkg-1.0.0+cpu-py3-none-any.whl''"
    unfolding is_wheel_name_def by (rule exI [of _ "''py3-none-any''"]) simp
  show ?thesis using first no second yes by (intro conjI)
qed

section \<open>Git checkout: one retry per step\<close>

lemma attempts_retry: "exits_nonzero (run w cmd 0) \<Longrightarrow> attempts w cmd = [Exec cmd, Sleep 1, Exec cmd]"
  by (auto simp: exits_nonzero_def attempts_def split: proc_result.splits)

















end
